theory Spec2Isabelle
  imports Complex_Main "HOL-Library.Multiset" "HOL-Library.AList"
begin

section \<open>Data model of heredity.py\<close>

text \<open>
  The program works on Python floats. The embedding uses exact arithmetic on \<open>real\<close>:
  every result below is about the numbers the program's expressions denote, not about
  the rounding of their floating-point evaluation.

  A Python \<open>set\<close> of names is a duplicate-free list of names in some iteration order,
  with membership \<open>x \<in> set xs\<close>; a \<open>dict\<close> is an association list in insertion order
  with distinct keys, read with \<open>map_of\<close>.
\<close>

type_synonym name = string

text \<open>The module-level table \<open>PROBS\<close>: \<open>PROBS["gene"][c]\<close>, \<open>PROBS["trait"][c][t]\<close>,
  \<open>PROBS["mutation"]\<close>. The functions below take the table as their first argument.\<close>

record tables =
  gene :: "nat \<Rightarrow> real"
  trait :: "nat \<Rightarrow> bool \<Rightarrow> real"
  mutation :: real

definition PROBS :: tables where
  "PROBS = \<lparr>
     gene = (\<lambda>c. if c = 2 then 0.01 else if c = 1 then 0.03 else 0.96),
     trait = (\<lambda>c t. if c = 2 then (if t then 0.65 else 0.35)
                    else if c = 1 then (if t then 0.56 else 0.44)
                    else (if t then 0.01 else 0.99)),
     mutation = 0.01 \<rparr>"

text \<open>One value of the dictionary built by \<open>load_data\<close>; the key \<open>"trait"\<close> is the
  field \<open>observed\<close> here (\<open>trait\<close> is the table's field).\<close>

record person =
  pname :: name
  mother :: "name option"
  father :: "name option"
  observed :: "bool option"

type_synonym people = "(name \<times> person) list"

datatype error = KeyError name | ZeroDivisionError | InvalidPedigree | EvidenceUnsatisfiable

text \<open>\<open>parent in some_set\<close>, where the parent may be \<open>None\<close>: \<open>None\<close> is in no set of names.\<close>

fun py_in :: "name option \<Rightarrow> name list \<Rightarrow> bool" where
  "py_in None s = False"
| "py_in (Some n) s = (n \<in> set s)"

section \<open>joint_probability\<close>

text \<open>The chain \<open>if mom in one_gene ... elif mom in two_genes ... else\<close> of the loops over
  \<open>one_gene\<close> and \<open>two_genes\<close> (the same chain is written for \<open>dad\<close>).\<close>

definition momTemp :: "tables \<Rightarrow> name list \<Rightarrow> name list \<Rightarrow> name option \<Rightarrow> real" where
  "momTemp T one_gene two_genes mom =
     (if py_in mom one_gene then (0.5 * (1 - mutation T)) + (0.5 * mutation T)
      else if py_in mom two_genes then 1 - mutation T
      else mutation T)"

definition dadTemp :: "tables \<Rightarrow> name list \<Rightarrow> name list \<Rightarrow> name option \<Rightarrow> real" where
  "dadTemp T one_gene two_genes dad =
     (if py_in dad one_gene then (0.5 * (1 - mutation T)) + (0.5 * mutation T)
      else if py_in dad two_genes then 1 - mutation T
      else mutation T)"

text \<open>The chain of the third loop (people with no copy), where the two outer branches are
  swapped.\<close>

definition momTemp0 :: "tables \<Rightarrow> name list \<Rightarrow> name list \<Rightarrow> name option \<Rightarrow> real" where
  "momTemp0 T one_gene two_genes mom =
     (if py_in mom one_gene then (0.5 * (1 - mutation T)) + (0.5 * mutation T)
      else if py_in mom two_genes then mutation T
      else 1 - mutation T)"

definition dadTemp0 :: "tables \<Rightarrow> name list \<Rightarrow> name list \<Rightarrow> name option \<Rightarrow> real" where
  "dadTemp0 T one_gene two_genes dad =
     (if py_in dad one_gene then (0.5 * (1 - mutation T)) + (0.5 * mutation T)
      else if py_in dad two_genes then mutation T
      else 1 - mutation T)"

text \<open>\<open>childProb\<close> before the trait factor is multiplied in, in each of the three loops.\<close>

definition childProb1 :: "tables \<Rightarrow> name list \<Rightarrow> name list \<Rightarrow> name option \<Rightarrow> name option \<Rightarrow> real" where
  "childProb1 T one_gene two_genes mom dad =
     momTemp T one_gene two_genes mom * (1 - dadTemp T one_gene two_genes dad)
     + dadTemp T one_gene two_genes dad * (1 - momTemp T one_gene two_genes mom)"

definition childProb2 :: "tables \<Rightarrow> name list \<Rightarrow> name list \<Rightarrow> name option \<Rightarrow> name option \<Rightarrow> real" where
  "childProb2 T one_gene two_genes mom dad =
     momTemp T one_gene two_genes mom * dadTemp T one_gene two_genes dad"

definition childProb0 :: "tables \<Rightarrow> name list \<Rightarrow> name list \<Rightarrow> name option \<Rightarrow> name option \<Rightarrow> real" where
  "childProb0 T one_gene two_genes mom dad =
     momTemp0 T one_gene two_genes mom * dadTemp0 T one_gene two_genes dad"

text \<open>The bodies of the three loops: the number appended to \<open>probsToMultiply\<close> for
  \<open>person\<close>, whose record is \<open>r = people[person]\<close>.\<close>

definition one_gene_body ::
  "tables \<Rightarrow> name list \<Rightarrow> name list \<Rightarrow> name list \<Rightarrow> name \<Rightarrow> person \<Rightarrow> real" where
  "one_gene_body T one_gene two_genes have_trait p r =
     (if mother r = None \<and> father r = None then
        (if p \<in> set have_trait then gene T 1 * trait T 1 True
         else gene T 1 * trait T 1 False)
      else
        (if p \<in> set have_trait
         then childProb1 T one_gene two_genes (mother r) (father r) * trait T 1 True
         else childProb1 T one_gene two_genes (mother r) (father r) * trait T 1 False))"

definition two_genes_body ::
  "tables \<Rightarrow> name list \<Rightarrow> name list \<Rightarrow> name list \<Rightarrow> name \<Rightarrow> person \<Rightarrow> real" where
  "two_genes_body T one_gene two_genes have_trait p r =
     (if mother r = None \<and> father r = None then
        (if p \<in> set have_trait then gene T 2 * trait T 2 True
         else gene T 2 * trait T 2 False)
      else
        (if p \<in> set have_trait
         then childProb2 T one_gene two_genes (mother r) (father r) * trait T 2 True
         else childProb2 T one_gene two_genes (mother r) (father r) * trait T 2 False))"

definition no_gene_body ::
  "tables \<Rightarrow> name list \<Rightarrow> name list \<Rightarrow> name list \<Rightarrow> name \<Rightarrow> person \<Rightarrow> real" where
  "no_gene_body T one_gene two_genes have_trait p r =
     (if mother r = None \<and> father r = None then
        (if p \<in> set have_trait then gene T 0 * trait T 0 True
         else gene T 0 * trait T 0 False)
      else
        (if p \<in> set have_trait
         then childProb0 T one_gene two_genes (mother r) (father r) * trait T 0 True
         else childProb0 T one_gene two_genes (mother r) (father r) * trait T 0 False))"

text \<open>A loop \<open>for person in persons: ... people[person] ... probsToMultiply.append(...)\<close>.
  Reading \<open>people[person]\<close> for a name that is no key raises \<open>KeyError\<close>.\<close>

fun for_persons ::
  "people \<Rightarrow> (name \<Rightarrow> person \<Rightarrow> real) \<Rightarrow> name list \<Rightarrow> real list \<Rightarrow> error + real list" where
  "for_persons people body [] probsToMultiply = Inr probsToMultiply"
| "for_persons people body (p # ps) probsToMultiply =
     (case map_of people p of
        None \<Rightarrow> Inl (KeyError p)
      | Some r \<Rightarrow> for_persons people body ps (probsToMultiply @ [body p r]))"

text \<open>The third loop runs over the keys of \<open>people\<close> and skips whoever is in \<open>one_gene\<close>
  or \<open>two_genes\<close>.\<close>

definition joint_probability ::
  "tables \<Rightarrow> people \<Rightarrow> name list \<Rightarrow> name list \<Rightarrow> name list \<Rightarrow> error + real" where
  "joint_probability T people one_gene two_genes have_trait =
     (case for_persons people (one_gene_body T one_gene two_genes have_trait) one_gene [] of
        Inl e \<Rightarrow> Inl e
      | Inr probs1 \<Rightarrow>
     (case for_persons people (two_genes_body T one_gene two_genes have_trait) two_genes probs1 of
        Inl e \<Rightarrow> Inl e
      | Inr probs2 \<Rightarrow>
     (case for_persons people (no_gene_body T one_gene two_genes have_trait)
             (filter (\<lambda>p. p \<notin> set one_gene \<and> p \<notin> set two_genes) (map fst people)) probs2 of
        Inl e \<Rightarrow> Inl e
      | Inr probsToMultiply \<Rightarrow> Inr (prod_list probsToMultiply))))"

section \<open>The formulas of the specification\<close>

text \<open>The number of copies a hypothesis assigns to a name: 1 in \<open>one_gene\<close>, 2 in
  \<open>two_genes\<close>, 0 in the complement.\<close>

definition copies :: "name list \<Rightarrow> name list \<Rightarrow> name \<Rightarrow> nat" where
  "copies one_gene two_genes n =
     (if n \<in> set one_gene then 1 else if n \<in> set two_genes then 2 else 0)"

text \<open>The specification's transmit-probability of a parent with \<open>c\<close> copies.\<close>

definition spec_transmit :: "real \<Rightarrow> nat \<Rightarrow> real" where
  "spec_transmit mutationRate c =
     (if c = 2 then 1 - mutationRate
      else if c = 1 then 0.5 * (1 - mutationRate) + 0.5 * mutationRate
      else mutationRate)"

text \<open>The specification's \<open>P(child = c)\<close> from the mother's and father's
  transmit-probabilities \<open>m\<close> and \<open>f\<close>.\<close>

definition spec_child :: "real \<Rightarrow> real \<Rightarrow> nat \<Rightarrow> real" where
  "spec_child m f c =
     (if c = 0 then (1 - m) * (1 - f)
      else if c = 1 then m * (1 - f) + f * (1 - m)
      else m * f)"

text \<open>The copies of a parent reference. The data model has both parents or none; for a
  record that lists one parent only, the absent parent is in neither set and counts as
  holding no copy.\<close>

fun parent_copies :: "name list \<Rightarrow> name list \<Rightarrow> name option \<Rightarrow> nat" where
  "parent_copies one_gene two_genes None = 0"
| "parent_copies one_gene two_genes (Some n) = copies one_gene two_genes n"

text \<open>The specification's two factors of an individual: \<open>P(geneCount | parents)\<close>, the
  prior for a founder, and \<open>P(trait | geneCount)\<close>.\<close>

definition spec_gene_factor ::
  "tables \<Rightarrow> name list \<Rightarrow> name list \<Rightarrow> name \<Rightarrow> person \<Rightarrow> real" where
  "spec_gene_factor T one_gene two_genes p r =
     (if mother r = None \<and> father r = None then gene T (copies one_gene two_genes p)
      else spec_child
             (spec_transmit (mutation T) (parent_copies one_gene two_genes (mother r)))
             (spec_transmit (mutation T) (parent_copies one_gene two_genes (father r)))
             (copies one_gene two_genes p))"

definition spec_trait_factor ::
  "tables \<Rightarrow> name list \<Rightarrow> name list \<Rightarrow> name list \<Rightarrow> name \<Rightarrow> real" where
  "spec_trait_factor T one_gene two_genes have_trait p =
     trait T (copies one_gene two_genes p) (p \<in> set have_trait)"

text \<open>The specification's joint probability: the product over all individuals.\<close>

definition spec_joint ::
  "tables \<Rightarrow> people \<Rightarrow> name list \<Rightarrow> name list \<Rightarrow> name list \<Rightarrow> real" where
  "spec_joint T people one_gene two_genes have_trait =
     prod_list (map (\<lambda>(p, r). spec_gene_factor T one_gene two_genes p r
                              * spec_trait_factor T one_gene two_genes have_trait p) people)"

section \<open>update and normalize\<close>

text \<open>\<open>probabilities[person]\<close>: the bins \<open>["gene"][2]\<close>, \<open>["gene"][1]\<close>, \<open>["gene"][0]\<close>,
  \<open>["trait"][True]\<close>, \<open>["trait"][False]\<close>, in the order of the dictionary literal.\<close>

record marginal =
  gene2 :: real
  gene1 :: real
  gene0 :: real
  trait_True :: real
  trait_False :: real

type_synonym probabilities = "(name \<times> marginal) list"

definition update_person ::
  "name list \<Rightarrow> name list \<Rightarrow> name list \<Rightarrow> real \<Rightarrow> name \<Rightarrow> marginal \<Rightarrow> marginal" where
  "update_person one_gene two_genes have_trait p person m =
     (let m1 = (if person \<in> set one_gene then m\<lparr>gene1 := gene1 m + p\<rparr>
                else if person \<in> set two_genes then m\<lparr>gene2 := gene2 m + p\<rparr>
                else m\<lparr>gene0 := gene0 m + p\<rparr>)
      in if person \<in> set have_trait then m1\<lparr>trait_True := trait_True m1 + p\<rparr>
         else m1\<lparr>trait_False := trait_False m1 + p\<rparr>)"

text \<open>\<open>update\<close> changes the dictionary in place; the model returns the new dictionary.\<close>

definition update ::
  "probabilities \<Rightarrow> name list \<Rightarrow> name list \<Rightarrow> name list \<Rightarrow> real \<Rightarrow> probabilities" where
  "update probabilities one_gene two_genes have_trait p =
     map (\<lambda>(person, m). (person, update_person one_gene two_genes have_trait p person m))
       probabilities"

text \<open>The body of the loop of \<open>normalize\<close> for one person. \<open>sum(d.values())\<close> adds the bins
  in the dictionary's order; \<open>1 / total\<close> raises \<open>ZeroDivisionError\<close> when the total is
  zero.\<close>

definition normalize_person :: "marginal \<Rightarrow> error + marginal" where
  "normalize_person m =
     (let geneTotal = 0 + gene2 m + gene1 m + gene0 m in
      if geneTotal = 0 then Inl ZeroDivisionError
      else
        let sf = 1 / geneTotal;
            m1 = m\<lparr>gene2 := gene2 m * sf, gene1 := gene1 m * sf, gene0 := gene0 m * sf\<rparr>;
            traitTotal = 0 + trait_True m1 + trait_False m1
        in if traitTotal = 0 then Inl ZeroDivisionError
           else
             let sf = 1 / traitTotal
             in Inr (m1\<lparr>trait_True := trait_True m1 * sf,
                        trait_False := trait_False m1 * sf\<rparr>))"

text \<open>\<open>normalize\<close> changes the dictionary in place and returns nothing; the model returns
  the new dictionary, or the exception that ends the loop.\<close>

fun normalize :: "probabilities \<Rightarrow> error + probabilities" where
  "normalize [] = Inr []"
| "normalize ((person, m) # rest) =
     (case normalize_person m of
        Inl e \<Rightarrow> Inl e
      | Inr m' \<Rightarrow>
          (case normalize rest of
             Inl e \<Rightarrow> Inl e
           | Inr rest' \<Rightarrow> Inr ((person, m') # rest')))"

section \<open>powerset\<close>

text \<open>\<open>itertools.combinations(s, r)\<close>: the sublists of length \<open>r\<close>, in the order of the
  positions of their elements.\<close>

fun combinations :: "'a list \<Rightarrow> nat \<Rightarrow> 'a list list" where
  "combinations xs 0 = [[]]"
| "combinations [] (Suc r) = []"
| "combinations (x # xs) (Suc r) = map ((#) x) (combinations xs r) @ combinations xs (Suc r)"

text \<open>\<open>powerset(s)\<close> chains the combinations for \<open>r\<close> in \<open>range(len(s) + 1)\<close>; the argument
  is the list \<open>list(s)\<close>.\<close>

definition powerset :: "'a list \<Rightarrow> 'a list list" where
  "powerset s = concat (map (combinations s) [0..<length s + 1])"

section \<open>load_data and main\<close>

text \<open>A row of the CSV file as \<open>csv.DictReader\<close> yields it. Reading the file, the check of
  the command line and the printing of the result are input and output around the values
  below and are left out.\<close>

record row =
  row_name :: string
  row_mother :: string
  row_father :: string
  row_trait :: string

text \<open>\<open>data[name] = {...}\<close> is \<open>AList.update\<close>: a new key goes to the end, a key that is
  there keeps its place and takes the new value. \<open>row["mother"] or None\<close> is \<open>None\<close> for the
  empty string.\<close>

definition load_row :: "row \<Rightarrow> people \<Rightarrow> people" where
  "load_row rw data =
     AList.update (row_name rw)
       \<lparr> pname = row_name rw,
         mother = (if row_mother rw = [] then None else Some (row_mother rw)),
         father = (if row_father rw = [] then None else Some (row_father rw)),
         observed = (if row_trait rw = ''1'' then Some True
                     else if row_trait rw = ''0'' then Some False else None) \<rparr>
       data"

definition load_data :: "row list \<Rightarrow> people" where
  "load_data rows = fold load_row rows []"

text \<open>The dictionary \<open>probabilities\<close> that \<open>main\<close> starts from.\<close>

definition initial_probabilities :: "people \<Rightarrow> probabilities" where
  "initial_probabilities people =
     map (\<lambda>(person, r). (person, \<lparr>gene2 = 0, gene1 = 0, gene0 = 0,
                                   trait_True = 0, trait_False = 0\<rparr>)) people"

text \<open>\<open>fails_evidence\<close> for one \<open>have_trait\<close>. \<open>names\<close> holds the keys of \<open>people\<close>, so
  \<open>people[person]\<close> is always found.\<close>

definition fails_evidence :: "people \<Rightarrow> name list \<Rightarrow> name list \<Rightarrow> bool" where
  "fails_evidence people names have_trait =
     list_ex (\<lambda>person. case map_of people person of
                 None \<Rightarrow> False
               | Some r \<Rightarrow> observed r \<noteq> None \<and> observed r \<noteq> Some (person \<in> set have_trait))
       names"

text \<open>The two statements in the innermost loop. An exception of \<open>joint_probability\<close> ends
  the program: once the state is an error it stays that error.\<close>

definition score_and_update ::
  "tables \<Rightarrow> people \<Rightarrow> name list \<Rightarrow> name list \<Rightarrow> name list
     \<Rightarrow> error + probabilities \<Rightarrow> error + probabilities" where
  "score_and_update T people have_trait one_gene two_genes st =
     (case st of
        Inl e \<Rightarrow> Inl e
      | Inr probabilities \<Rightarrow>
          (case joint_probability T people one_gene two_genes have_trait of
             Inl e \<Rightarrow> Inl e
           | Inr p \<Rightarrow> Inr (update probabilities one_gene two_genes have_trait p)))"

text \<open>The three nested loops of \<open>main\<close>. \<open>names - one_gene\<close> keeps the names that are not in
  \<open>one_gene\<close>.\<close>

definition enumeration_loop ::
  "tables \<Rightarrow> people \<Rightarrow> name list \<Rightarrow> error + probabilities \<Rightarrow> error + probabilities" where
  "enumeration_loop T people names st =
     fold (\<lambda>have_trait st.
             if fails_evidence people names have_trait then st
             else fold (\<lambda>one_gene st.
                          fold (\<lambda>two_genes st.
                                  score_and_update T people have_trait one_gene two_genes st)
                            (powerset (filter (\<lambda>n. n \<notin> set one_gene) names)) st)
                    (powerset names) st)
       (powerset names) st"

text \<open>\<open>main\<close> from the loaded dictionary on: the accumulated totals, then \<open>normalize\<close>. The
  result is the dictionary that \<open>main\<close> prints.\<close>

definition accumulated :: "tables \<Rightarrow> people \<Rightarrow> error + probabilities" where
  "accumulated T people =
     enumeration_loop T people (map fst people) (Inr (initial_probabilities people))"

definition inference :: "tables \<Rightarrow> people \<Rightarrow> error + probabilities" where
  "inference T people =
     (case accumulated T people of
        Inl e \<Rightarrow> Inl e
      | Inr probabilities \<Rightarrow> normalize probabilities)"

definition main :: "tables \<Rightarrow> row list \<Rightarrow> error + probabilities" where
  "main T rows = inference T (load_data rows)"

section \<open>The hypotheses that main visits\<close>

text \<open>The triples \<open>(have_trait, one_gene, two_genes)\<close> for which the innermost loop body
  runs, in the order of the run.\<close>

definition gene_partitions :: "name list \<Rightarrow> (name list \<times> name list) list" where
  "gene_partitions names =
     concat (map (\<lambda>one_gene. map (\<lambda>two_genes. (one_gene, two_genes))
                                (powerset (filter (\<lambda>n. n \<notin> set one_gene) names)))
               (powerset names))"

definition hypotheses :: "people \<Rightarrow> (name list \<times> name list \<times> name list) list" where
  "hypotheses people =
     concat (map (\<lambda>have_trait. map (\<lambda>g. (have_trait, g)) (gene_partitions (map fst people)))
               (filter (\<lambda>have_trait. \<not> fails_evidence people (map fst people) have_trait)
                  (powerset (map fst people))))"

text \<open>A hypothesis as the three sets it stands for.\<close>

definition as_sets ::
  "name list \<times> name list \<times> name list \<Rightarrow> name set \<times> name set \<times> name set" where
  "as_sets h = (set (fst h), set (fst (snd h)), set (snd (snd h)))"

text \<open>The probability mass \<open>main\<close> adds for a hypothesis.\<close>

definition mass :: "tables \<Rightarrow> people \<Rightarrow> name list \<times> name list \<times> name list \<Rightarrow> real" where
  "mass T people h =
     (case joint_probability T people (fst (snd h)) (snd (snd h)) (fst h) of
        Inl e \<Rightarrow> 0
      | Inr p \<Rightarrow> p)"

definition evidence_mass :: "tables \<Rightarrow> people \<Rightarrow> real" where
  "evidence_mass T people = sum_list (map (mass T people) (hypotheses people))"

section \<open>Auxiliary values and example inputs\<close>

text \<open>The factor of a name under a loop body, and the product that \<open>joint_probability\<close>
  returns when every name of \<open>one_gene\<close> and \<open>two_genes\<close> is a key.\<close>

definition lookup_body :: "people \<Rightarrow> (name \<Rightarrow> person \<Rightarrow> real) \<Rightarrow> name \<Rightarrow> real" where
  "lookup_body people body p = (case map_of people p of None \<Rightarrow> 1 | Some r \<Rightarrow> body p r)"

definition joint_value ::
  "tables \<Rightarrow> people \<Rightarrow> name list \<Rightarrow> name list \<Rightarrow> name list \<Rightarrow> real" where
  "joint_value T people one_gene two_genes have_trait =
     prod_list (map (lookup_body people (one_gene_body T one_gene two_genes have_trait)) one_gene)
     * prod_list (map (lookup_body people (two_genes_body T one_gene two_genes have_trait)) two_genes)
     * prod_list (map (lookup_body people (no_gene_body T one_gene two_genes have_trait))
         (filter (\<lambda>p. p \<notin> set one_gene \<and> p \<notin> set two_genes) (map fst people)))"

definition spec_factor ::
  "tables \<Rightarrow> people \<Rightarrow> name list \<Rightarrow> name list \<Rightarrow> name list \<Rightarrow> name \<Rightarrow> real" where
  "spec_factor T people one_gene two_genes have_trait p =
     (case map_of people p of
        None \<Rightarrow> 1
      | Some r \<Rightarrow> spec_gene_factor T one_gene two_genes p r
                  * spec_trait_factor T one_gene two_genes have_trait p)"

definition gene_total :: "marginal \<Rightarrow> real" where
  "gene_total m = gene2 m + gene1 m + gene0 m"

definition trait_total :: "marginal \<Rightarrow> real" where
  "trait_total m = trait_True m + trait_False m"

text \<open>Example pedigrees: two founders and their child, and a record that lists a father
  only, whose name is no individual.\<close>

definition family :: people where
  "family =
     [(''Harry'', \<lparr>pname = ''Harry'', mother = Some ''Lily'', father = Some ''James'',
                   observed = None\<rparr>),
      (''James'', \<lparr>pname = ''James'', mother = None, father = None, observed = Some True\<rparr>),
      (''Lily'', \<lparr>pname = ''Lily'', mother = None, father = None, observed = Some False\<rparr>)]"


text \<open>A marginal with each distribution divided by its total.\<close>

definition scaled :: "marginal \<Rightarrow> marginal" where
  "scaled m =
     \<lparr>gene2 = gene2 m * (1 / gene_total m), gene1 = gene1 m * (1 / gene_total m),
      gene0 = gene0 m * (1 / gene_total m),
      trait_True = trait_True m * (1 / trait_total m),
      trait_False = trait_False m * (1 / trait_total m)\<rparr>"

text \<open>A founder whose trait is observed, and a founder with no evidence.\<close>

definition observed_founder :: people where
  "observed_founder =
     [(''a'', \<lparr>pname = ''a'', mother = None, father = None, observed = Some True\<rparr>)]"


text \<open>Rows outside the data model: a row with a father only, whose name is no row; and a
  row that names itself as both parents.\<close>

definition half_orphan_rows :: "row list" where
  "half_orphan_rows =
     [\<lparr>row_name = ''a'', row_mother = '''', row_father = ''ghost'', row_trait = ''''\<rparr>]"

definition own_parent_rows :: "row list" where
  "own_parent_rows =
     [\<lparr>row_name = ''a'', row_mother = ''a'', row_father = ''a'', row_trait = ''''\<rparr>]"

text \<open>The default tables with a prior that gives every gene count the probability 0.\<close>

definition zero_prior :: tables where
  "zero_prior = PROBS\<lparr>gene := (\<lambda>c. 0)\<rparr>"

section \<open>The accumulator on a stream of scored hypotheses\<close>

text \<open>\<open>update\<close> applied to the pairs of a hypothesis
  \<open>(have_trait, one_gene, two_genes)\<close> and its probability, one after the other.\<close>

definition accumulate ::
  "probabilities \<Rightarrow> ((name list \<times> name list \<times> name list) \<times> real) list \<Rightarrow> probabilities" where
  "accumulate probabilities pairs =
     fold (\<lambda>hp probabilities.
             update probabilities (fst (snd (fst hp))) (snd (snd (fst hp))) (fst (fst hp)) (snd hp))
       pairs probabilities"





text \<open>Tables whose entries are probabilities.\<close>

definition valid_tables :: "tables \<Rightarrow> bool" where
  "valid_tables T =
     (0 \<le> gene T 0 \<and> 0 \<le> gene T 1 \<and> 0 \<le> gene T 2
      \<and> 0 \<le> trait T 0 True \<and> 0 \<le> trait T 0 False
      \<and> 0 \<le> trait T 1 True \<and> 0 \<le> trait T 1 False
      \<and> 0 \<le> trait T 2 True \<and> 0 \<le> trait T 2 False
      \<and> 0 \<le> mutation T \<and> mutation T \<le> 1)"

text \<open>The specification's condition on the set of individuals designated "has trait":
  whoever is observed with the trait is in it, whoever is observed without is not.\<close>

definition evidence_consistent :: "people \<Rightarrow> name set \<Rightarrow> bool" where
  "evidence_consistent people H =
     list_all (\<lambda>x. (observed (snd x) = Some True \<longrightarrow> fst x \<in> H)
                  \<and> (observed (snd x) = Some False \<longrightarrow> fst x \<notin> H)) people"

text \<open>Two founders, the first observed with the trait.\<close>

definition two_founders :: people where
  "two_founders =
     [(''a'', \<lparr>pname = ''a'', mother = None, father = None, observed = Some True\<rparr>),
      (''b'', \<lparr>pname = ''b'', mother = None, father = None, observed = None\<rparr>)]"

section \<open>Python floats\<close>

text \<open>
  A Python float is an IEEE 754 binary64 number, and every operation on floats returns the
  exact result rounded to the nearest binary64 number, ties to the even significand.
  \<open>binary64 x\<close> is that rounding of the real number \<open>x\<close>: the significand has 53 bits.
  The exponent is not bounded here, so overflow and underflow are left out; they do not
  occur for numbers between \<open>2 ^ -1022\<close> and \<open>2 ^ 1023\<close>.
\<close>

definition round_half_even :: "real \<Rightarrow> int" where
  "round_half_even y =
     (let f = \<lfloor>y\<rfloor>
      in if y - of_int f < 1 / 2 then f
         else if 1 / 2 < y - of_int f then f + 1
         else if even f then f else f + 1)"

definition binary64 :: "real \<Rightarrow> real" where
  "binary64 x =
     (if x = 0 then 0
      else let e = \<lfloor>log 2 \<bar>x\<bar>\<rfloor> - 52
           in of_int (round_half_even (x / 2 powr of_int e)) * 2 powr of_int e)"

definition fl_add :: "real \<Rightarrow> real \<Rightarrow> real" where
  "fl_add x y = binary64 (x + y)"

definition fl_sub :: "real \<Rightarrow> real \<Rightarrow> real" where
  "fl_sub x y = binary64 (x - y)"

definition fl_mul :: "real \<Rightarrow> real \<Rightarrow> real" where
  "fl_mul x y = binary64 (x * y)"

definition fl_div :: "real \<Rightarrow> real \<Rightarrow> real" where
  "fl_div x y = binary64 (x / y)"


section \<open>The program on floats\<close>

text \<open>
  The definitions above give the numbers that the program's expressions denote. The
  definitions of this section give the floats that the program computes: every \<open>+\<close>,
  \<open>-\<close>, \<open>*\<close> and \<open>/\<close> of the source is rounded. An \<open>int\<close> operand (\<open>1\<close>, and the \<open>0\<close> that
  the bins and \<open>sum\<close> start from) is converted exactly, and \<open>.5\<close> is a float.
  The table read from the literals of the source holds the nearest floats.
\<close>

definition PROBS_binary64 :: tables where
  "PROBS_binary64 =
     \<lparr> gene = (\<lambda>c. binary64 (gene PROBS c)),
       trait = (\<lambda>c t. binary64 (trait PROBS c t)),
       mutation = binary64 (mutation PROBS) \<rparr>"

definition momTemp_fl :: "tables \<Rightarrow> name list \<Rightarrow> name list \<Rightarrow> name option \<Rightarrow> real" where
  "momTemp_fl T one_gene two_genes mom =
     (if py_in mom one_gene
      then fl_add (fl_mul 0.5 (fl_sub 1 (mutation T))) (fl_mul 0.5 (mutation T))
      else if py_in mom two_genes then fl_sub 1 (mutation T)
      else mutation T)"

definition dadTemp_fl :: "tables \<Rightarrow> name list \<Rightarrow> name list \<Rightarrow> name option \<Rightarrow> real" where
  "dadTemp_fl T one_gene two_genes dad =
     (if py_in dad one_gene
      then fl_add (fl_mul 0.5 (fl_sub 1 (mutation T))) (fl_mul 0.5 (mutation T))
      else if py_in dad two_genes then fl_sub 1 (mutation T)
      else mutation T)"

definition momTemp0_fl :: "tables \<Rightarrow> name list \<Rightarrow> name list \<Rightarrow> name option \<Rightarrow> real" where
  "momTemp0_fl T one_gene two_genes mom =
     (if py_in mom one_gene
      then fl_add (fl_mul 0.5 (fl_sub 1 (mutation T))) (fl_mul 0.5 (mutation T))
      else if py_in mom two_genes then mutation T
      else fl_sub 1 (mutation T))"

definition dadTemp0_fl :: "tables \<Rightarrow> name list \<Rightarrow> name list \<Rightarrow> name option \<Rightarrow> real" where
  "dadTemp0_fl T one_gene two_genes dad =
     (if py_in dad one_gene
      then fl_add (fl_mul 0.5 (fl_sub 1 (mutation T))) (fl_mul 0.5 (mutation T))
      else if py_in dad two_genes then mutation T
      else fl_sub 1 (mutation T))"

definition childProb1_fl ::
  "tables \<Rightarrow> name list \<Rightarrow> name list \<Rightarrow> name option \<Rightarrow> name option \<Rightarrow> real" where
  "childProb1_fl T one_gene two_genes mom dad =
     fl_add (fl_mul (momTemp_fl T one_gene two_genes mom)
                    (fl_sub 1 (dadTemp_fl T one_gene two_genes dad)))
            (fl_mul (dadTemp_fl T one_gene two_genes dad)
                    (fl_sub 1 (momTemp_fl T one_gene two_genes mom)))"

definition childProb2_fl ::
  "tables \<Rightarrow> name list \<Rightarrow> name list \<Rightarrow> name option \<Rightarrow> name option \<Rightarrow> real" where
  "childProb2_fl T one_gene two_genes mom dad =
     fl_mul (momTemp_fl T one_gene two_genes mom) (dadTemp_fl T one_gene two_genes dad)"

definition childProb0_fl ::
  "tables \<Rightarrow> name list \<Rightarrow> name list \<Rightarrow> name option \<Rightarrow> name option \<Rightarrow> real" where
  "childProb0_fl T one_gene two_genes mom dad =
     fl_mul (momTemp0_fl T one_gene two_genes mom) (dadTemp0_fl T one_gene two_genes dad)"

definition one_gene_body_fl ::
  "tables \<Rightarrow> name list \<Rightarrow> name list \<Rightarrow> name list \<Rightarrow> name \<Rightarrow> person \<Rightarrow> real" where
  "one_gene_body_fl T one_gene two_genes have_trait p r =
     (if mother r = None \<and> father r = None then
        (if p \<in> set have_trait then fl_mul (gene T 1) (trait T 1 True)
         else fl_mul (gene T 1) (trait T 1 False))
      else
        (if p \<in> set have_trait
         then fl_mul (childProb1_fl T one_gene two_genes (mother r) (father r)) (trait T 1 True)
         else fl_mul (childProb1_fl T one_gene two_genes (mother r) (father r)) (trait T 1 False)))"

definition two_genes_body_fl ::
  "tables \<Rightarrow> name list \<Rightarrow> name list \<Rightarrow> name list \<Rightarrow> name \<Rightarrow> person \<Rightarrow> real" where
  "two_genes_body_fl T one_gene two_genes have_trait p r =
     (if mother r = None \<and> father r = None then
        (if p \<in> set have_trait then fl_mul (gene T 2) (trait T 2 True)
         else fl_mul (gene T 2) (trait T 2 False))
      else
        (if p \<in> set have_trait
         then fl_mul (childProb2_fl T one_gene two_genes (mother r) (father r)) (trait T 2 True)
         else fl_mul (childProb2_fl T one_gene two_genes (mother r) (father r)) (trait T 2 False)))"

definition no_gene_body_fl ::
  "tables \<Rightarrow> name list \<Rightarrow> name list \<Rightarrow> name list \<Rightarrow> name \<Rightarrow> person \<Rightarrow> real" where
  "no_gene_body_fl T one_gene two_genes have_trait p r =
     (if mother r = None \<and> father r = None then
        (if p \<in> set have_trait then fl_mul (gene T 0) (trait T 0 True)
         else fl_mul (gene T 0) (trait T 0 False))
      else
        (if p \<in> set have_trait
         then fl_mul (childProb0_fl T one_gene two_genes (mother r) (father r)) (trait T 0 True)
         else fl_mul (childProb0_fl T one_gene two_genes (mother r) (father r)) (trait T 0 False)))"

text \<open>\<open>math.prod\<close> multiplies from the left, starting from \<open>1\<close>.\<close>

definition fl_prod :: "real list \<Rightarrow> real" where
  "fl_prod xs = fold (\<lambda>x result. fl_mul result x) xs 1"

definition joint_probability_fl ::
  "tables \<Rightarrow> people \<Rightarrow> name list \<Rightarrow> name list \<Rightarrow> name list \<Rightarrow> error + real" where
  "joint_probability_fl T people one_gene two_genes have_trait =
     (case for_persons people (one_gene_body_fl T one_gene two_genes have_trait) one_gene [] of
        Inl e \<Rightarrow> Inl e
      | Inr probs1 \<Rightarrow>
     (case for_persons people (two_genes_body_fl T one_gene two_genes have_trait) two_genes probs1 of
        Inl e \<Rightarrow> Inl e
      | Inr probs2 \<Rightarrow>
     (case for_persons people (no_gene_body_fl T one_gene two_genes have_trait)
             (filter (\<lambda>p. p \<notin> set one_gene \<and> p \<notin> set two_genes) (map fst people)) probs2 of
        Inl e \<Rightarrow> Inl e
      | Inr probsToMultiply \<Rightarrow> Inr (fl_prod probsToMultiply))))"

definition update_person_fl ::
  "name list \<Rightarrow> name list \<Rightarrow> name list \<Rightarrow> real \<Rightarrow> name \<Rightarrow> marginal \<Rightarrow> marginal" where
  "update_person_fl one_gene two_genes have_trait p person m =
     (let m1 = (if person \<in> set one_gene then m\<lparr>gene1 := fl_add (gene1 m) p\<rparr>
                else if person \<in> set two_genes then m\<lparr>gene2 := fl_add (gene2 m) p\<rparr>
                else m\<lparr>gene0 := fl_add (gene0 m) p\<rparr>)
      in if person \<in> set have_trait then m1\<lparr>trait_True := fl_add (trait_True m1) p\<rparr>
         else m1\<lparr>trait_False := fl_add (trait_False m1) p\<rparr>)"

definition update_fl ::
  "probabilities \<Rightarrow> name list \<Rightarrow> name list \<Rightarrow> name list \<Rightarrow> real \<Rightarrow> probabilities" where
  "update_fl probabilities one_gene two_genes have_trait p =
     map (\<lambda>(person, m). (person, update_person_fl one_gene two_genes have_trait p person m))
       probabilities"

text \<open>\<open>sum\<close> adds from the left, starting from \<open>0\<close>. (From CPython 3.12 on \<open>sum\<close> carries a
  correction term for floats; on the totals evaluated below both give the same float.)\<close>

definition normalize_person_fl :: "marginal \<Rightarrow> error + marginal" where
  "normalize_person_fl m =
     (let geneTotal = fl_add (fl_add (fl_add 0 (gene2 m)) (gene1 m)) (gene0 m) in
      if geneTotal = 0 then Inl ZeroDivisionError
      else
        let sf = fl_div 1 geneTotal;
            m1 = m\<lparr>gene2 := fl_mul (gene2 m) sf, gene1 := fl_mul (gene1 m) sf,
                   gene0 := fl_mul (gene0 m) sf\<rparr>;
            traitTotal = fl_add (fl_add 0 (trait_True m1)) (trait_False m1)
        in if traitTotal = 0 then Inl ZeroDivisionError
           else
             let sf = fl_div 1 traitTotal
             in Inr (m1\<lparr>trait_True := fl_mul (trait_True m1) sf,
                        trait_False := fl_mul (trait_False m1) sf\<rparr>))"

fun normalize_fl :: "probabilities \<Rightarrow> error + probabilities" where
  "normalize_fl [] = Inr []"
| "normalize_fl ((person, m) # rest) =
     (case normalize_person_fl m of
        Inl e \<Rightarrow> Inl e
      | Inr m' \<Rightarrow>
          (case normalize_fl rest of
             Inl e \<Rightarrow> Inl e
           | Inr rest' \<Rightarrow> Inr ((person, m') # rest')))"

definition score_and_update_fl ::
  "tables \<Rightarrow> people \<Rightarrow> name list \<Rightarrow> name list \<Rightarrow> name list
     \<Rightarrow> error + probabilities \<Rightarrow> error + probabilities" where
  "score_and_update_fl T people have_trait one_gene two_genes st =
     (case st of
        Inl e \<Rightarrow> Inl e
      | Inr probabilities \<Rightarrow>
          (case joint_probability_fl T people one_gene two_genes have_trait of
             Inl e \<Rightarrow> Inl e
           | Inr p \<Rightarrow> Inr (update_fl probabilities one_gene two_genes have_trait p)))"

definition enumeration_loop_fl ::
  "tables \<Rightarrow> people \<Rightarrow> name list \<Rightarrow> error + probabilities \<Rightarrow> error + probabilities" where
  "enumeration_loop_fl T people names st =
     fold (\<lambda>have_trait st.
             if fails_evidence people names have_trait then st
             else fold (\<lambda>one_gene st.
                          fold (\<lambda>two_genes st.
                                  score_and_update_fl T people have_trait one_gene two_genes st)
                            (powerset (filter (\<lambda>n. n \<notin> set one_gene) names)) st)
                    (powerset names) st)
       (powerset names) st"

definition accumulated_fl :: "tables \<Rightarrow> people \<Rightarrow> error + probabilities" where
  "accumulated_fl T people =
     enumeration_loop_fl T people (map fst people) (Inr (initial_probabilities people))"

definition inference_fl :: "tables \<Rightarrow> people \<Rightarrow> error + probabilities" where
  "inference_fl T people =
     (case accumulated_fl T people of
        Inl e \<Rightarrow> Inl e
      | Inr probabilities \<Rightarrow> normalize_fl probabilities)"

definition main_fl :: "tables \<Rightarrow> row list \<Rightarrow> error + probabilities" where
  "main_fl T rows = inference_fl T (load_data rows)"

text \<open>The float that \<open>main\<close> adds for a hypothesis, and \<open>update\<close> on a stream of scored
  hypotheses, on floats.\<close>

definition mass_fl :: "tables \<Rightarrow> people \<Rightarrow> name list \<times> name list \<times> name list \<Rightarrow> real" where
  "mass_fl T people h =
     (case joint_probability_fl T people (fst (snd h)) (snd (snd h)) (fst h) of
        Inl e \<Rightarrow> 0
      | Inr p \<Rightarrow> p)"

definition accumulate_fl ::
  "probabilities \<Rightarrow> ((name list \<times> name list \<times> name list) \<times> real) list \<Rightarrow> probabilities" where
  "accumulate_fl probabilities pairs =
     fold (\<lambda>hp probabilities.
             update_fl probabilities (fst (snd (fst hp))) (snd (snd (fst hp))) (fst (fst hp))
               (snd hp))
       pairs probabilities"


text \<open>The sum of the floats that \<open>main\<close> adds, as a real number.\<close>

definition evidence_mass_fl :: "tables \<Rightarrow> people \<Rightarrow> real" where
  "evidence_mass_fl T people = sum_list (map (mass_fl T people) (hypotheses people))"

text \<open>A float total \<open>f\<close> against the exact total \<open>e\<close> of the same \<open>k\<close> or fewer non-negative
  summands: each rounded addition changes the result by a factor between \<open>1 - 2 ^ -53\<close>
  and \<open>1 + 2 ^ -53\<close>.\<close>

definition round_lo :: real where
  "round_lo = 1 - 1 / 2 ^ 53"

definition round_hi :: real where
  "round_hi = 1 + 1 / 2 ^ 53"

definition near :: "nat \<Rightarrow> real \<Rightarrow> real \<Rightarrow> bool" where
  "near k f e = (0 \<le> e \<and> round_lo ^ k * e \<le> f \<and> f \<le> round_hi ^ k * e)"

definition near_marginal :: "nat \<Rightarrow> marginal \<Rightarrow> marginal \<Rightarrow> bool" where
  "near_marginal k mf me =
     (near k (gene2 mf) (gene2 me) \<and> near k (gene1 mf) (gene1 me)
      \<and> near k (gene0 mf) (gene0 me)
      \<and> near k (trait_True mf) (trait_True me) \<and> near k (trait_False mf) (trait_False me))"

definition near_entries :: "nat \<Rightarrow> probabilities \<Rightarrow> probabilities \<Rightarrow> bool" where
  "near_entries k a b = list_all2 (\<lambda>x y. fst x = fst y \<and> near_marginal k (snd x) (snd y)) a b"

text \<open>The product of the float factors of a hypothesis, as \<open>joint_value\<close> above.\<close>

definition joint_value_fl ::
  "tables \<Rightarrow> people \<Rightarrow> name list \<Rightarrow> name list \<Rightarrow> name list \<Rightarrow> real" where
  "joint_value_fl T people one_gene two_genes have_trait =
     fl_prod
       (map (lookup_body people (one_gene_body_fl T one_gene two_genes have_trait)) one_gene
        @ map (lookup_body people (two_genes_body_fl T one_gene two_genes have_trait)) two_genes
        @ map (lookup_body people (no_gene_body_fl T one_gene two_genes have_trait))
            (filter (\<lambda>p. p \<notin> set one_gene \<and> p \<notin> set two_genes) (map fst people)))"

section \<open>Gene-count factor of a person with parents\<close>



lemma momTemp0_complement:
  "momTemp0 T one_gene two_genes mom = 1 - momTemp T one_gene two_genes mom"
  by (simp add: momTemp0_def momTemp_def algebra_simps)

lemma dadTemp0_complement:
  "dadTemp0 T one_gene two_genes dad = 1 - dadTemp T one_gene two_genes dad"
  by (simp add: dadTemp0_def dadTemp_def algebra_simps)


section \<open>joint_probability as a product over the individuals\<close>

lemma map_of_key: "p \<in> fst ` set people \<Longrightarrow> \<exists>r. map_of people p = Some r"
  by (metis domIff dom_map_of_conv_image_fst not_Some_eq)

lemma for_persons_Inr:
  "set ps \<subseteq> fst ` set people \<Longrightarrow>
   for_persons people body ps acc = Inr (acc @ map (lookup_body people body) ps)"
proof (induction ps arbitrary: acc)
  case Nil
  show ?case by simp
next
  case (Cons p ps)
  from Cons.prems have "p \<in> fst ` set people" by simp
  from map_of_key [OF this] obtain r where r: "map_of people p = Some r" ..
  from Cons.prems have "set ps \<subseteq> fst ` set people" by simp
  from Cons.IH [OF this] r show ?case by (simp add: lookup_body_def)
qed

lemma for_persons_KeyError:
  "\<not> set ps \<subseteq> fst ` set people \<Longrightarrow> \<exists>n. for_persons people body ps acc = Inl (KeyError n)"
proof (induction ps arbitrary: acc)
  case Nil
  then show ?case by simp
next
  case (Cons p ps)
  show ?case
  proof (cases "map_of people p")
    case None
    then show ?thesis by simp
  next
    case (Some r)
    then have "p \<in> fst ` set people"
      by (metis domI dom_map_of_conv_image_fst)
    with Cons.prems have "\<not> set ps \<subseteq> fst ` set people" by simp
    from Cons.IH [OF this] Some show ?thesis by simp
  qed
qed

lemma joint_probability_Inr:
  assumes "set one_gene \<subseteq> fst ` set people" and "set two_genes \<subseteq> fst ` set people"
  shows "joint_probability T people one_gene two_genes have_trait =
     Inr (joint_value T people one_gene two_genes have_trait)"
proof -
  have z: "set (filter (\<lambda>p. p \<notin> set one_gene \<and> p \<notin> set two_genes) (map fst people))
             \<subseteq> fst ` set people"
    by auto
  show ?thesis
    unfolding joint_probability_def joint_value_def for_persons_Inr [OF assms(1)]
      for_persons_Inr [OF assms(2)] for_persons_Inr [OF z] sum.case
    by simp
qed

lemma momTemp_parent_copies:
  "momTemp T one_gene two_genes mom
     = spec_transmit (mutation T) (parent_copies one_gene two_genes mom)"
  by (cases mom) (simp_all add: momTemp_def spec_transmit_def copies_def)

lemma dadTemp_parent_copies:
  "dadTemp T one_gene two_genes dad
     = spec_transmit (mutation T) (parent_copies one_gene two_genes dad)"
  by (cases dad) (simp_all add: dadTemp_def spec_transmit_def copies_def)

lemma one_gene_body_spec:
  "p \<in> set one_gene \<Longrightarrow>
   one_gene_body T one_gene two_genes have_trait p r
     = spec_gene_factor T one_gene two_genes p r
       * spec_trait_factor T one_gene two_genes have_trait p"
  by (simp add: one_gene_body_def spec_gene_factor_def spec_trait_factor_def copies_def
      childProb1_def momTemp_parent_copies dadTemp_parent_copies spec_child_def)

lemma two_genes_body_spec:
  "p \<notin> set one_gene \<Longrightarrow> p \<in> set two_genes \<Longrightarrow>
   two_genes_body T one_gene two_genes have_trait p r
     = spec_gene_factor T one_gene two_genes p r
       * spec_trait_factor T one_gene two_genes have_trait p"
  by (simp add: two_genes_body_def spec_gene_factor_def spec_trait_factor_def copies_def
      childProb2_def momTemp_parent_copies dadTemp_parent_copies spec_child_def)

lemma no_gene_body_spec:
  "p \<notin> set one_gene \<Longrightarrow> p \<notin> set two_genes \<Longrightarrow>
   no_gene_body T one_gene two_genes have_trait p r
     = spec_gene_factor T one_gene two_genes p r
       * spec_trait_factor T one_gene two_genes have_trait p"
  by (simp add: no_gene_body_def spec_gene_factor_def spec_trait_factor_def copies_def
      childProb0_def momTemp0_complement dadTemp0_complement
      momTemp_parent_copies dadTemp_parent_copies spec_child_def)

lemma spec_joint_keys:
  "distinct (map fst people) \<Longrightarrow>
   spec_joint T people one_gene two_genes have_trait
     = prod_list (map (spec_factor T people one_gene two_genes have_trait) (map fst people))"
proof -
  assume d: "distinct (map fst people)"
  have "map (\<lambda>(p, r). spec_gene_factor T one_gene two_genes p r
                              * spec_trait_factor T one_gene two_genes have_trait p) people
      = map (spec_factor T people one_gene two_genes have_trait \<circ> fst) people"
    by (rule map_cong) (auto simp: spec_factor_def d)
  then show ?thesis unfolding spec_joint_def by (simp only: map_map)
qed

lemma hypothesis_partition:
  assumes "distinct keys" "distinct one_gene" "distinct two_genes"
    "set one_gene \<inter> set two_genes = {}" "set one_gene \<subseteq> set keys" "set two_genes \<subseteq> set keys"
  shows "mset (one_gene @ two_genes @
               filter (\<lambda>p. p \<notin> set one_gene \<and> p \<notin> set two_genes) keys) = mset keys"
proof -
  let ?P = "\<lambda>p. p \<in> set one_gene \<or> p \<in> set two_genes"
  have "distinct (one_gene @ two_genes)" using assms by auto
  moreover have "distinct (filter ?P keys)" using assms by simp
  moreover have "set (one_gene @ two_genes) = set (filter ?P keys)" using assms by auto
  ultimately have a: "mset (one_gene @ two_genes) = mset (filter ?P keys)"
    by (simp only: set_eq_iff_mset_eq_distinct)
  have "mset (one_gene @ two_genes @ filter (\<lambda>p. \<not> ?P p) keys)
      = mset (one_gene @ two_genes) + mset (filter (\<lambda>p. \<not> ?P p) keys)"
    by simp
  also have "\<dots> = mset (filter ?P keys) + mset (filter (\<lambda>p. \<not> ?P p) keys)"
    by (simp only: a)
  also have "\<dots> = mset keys"
    by (induction keys) auto
  finally show ?thesis by simp
qed

lemma prod_list_mset_cong:
  fixes f :: "'a \<Rightarrow> real"
  shows "mset xs = mset ys \<Longrightarrow> prod_list (map f xs) = prod_list (map f ys)"
proof -
  assume "mset xs = mset ys"
  then have "mset (map f xs) = mset (map f ys)" by simp
  then have "prod_mset (mset (map f xs)) = prod_mset (mset (map f ys))" by (rule arg_cong)
  then show ?thesis by (simp only: prod_mset_prod_list)
qed

lemma joint_value_spec:
  assumes "distinct (map fst people)" "distinct one_gene" "distinct two_genes"
    "set one_gene \<inter> set two_genes = {}"
    "set one_gene \<subseteq> fst ` set people" "set two_genes \<subseteq> fst ` set people"
  shows "joint_value T people one_gene two_genes have_trait
           = spec_joint T people one_gene two_genes have_trait"
proof -
  let ?F = "spec_factor T people one_gene two_genes have_trait"
  let ?Z = "filter (\<lambda>p. p \<notin> set one_gene \<and> p \<notin> set two_genes) (map fst people)"
  have 1: "map (lookup_body people (one_gene_body T one_gene two_genes have_trait)) one_gene
             = map ?F one_gene"
    by (rule map_cong)
      (auto simp: lookup_body_def spec_factor_def one_gene_body_spec split: option.splits)
  have 2: "map (lookup_body people (two_genes_body T one_gene two_genes have_trait)) two_genes
             = map ?F two_genes"
  proof (rule map_cong)
    fix p assume "p \<in> set two_genes"
    with assms(4) have "p \<notin> set one_gene" by blast
    with \<open>p \<in> set two_genes\<close>
    show "lookup_body people (two_genes_body T one_gene two_genes have_trait) p = ?F p"
      by (simp add: lookup_body_def spec_factor_def two_genes_body_spec split: option.splits)
  qed simp
  have 3: "map (lookup_body people (no_gene_body T one_gene two_genes have_trait)) ?Z
             = map ?F ?Z"
    by (rule map_cong)
      (auto simp: lookup_body_def spec_factor_def no_gene_body_spec split: option.splits)
  have "joint_value T people one_gene two_genes have_trait
          = prod_list (map ?F (one_gene @ two_genes @ ?Z))"
    unfolding joint_value_def 1 2 3 by simp
  also have "\<dots> = prod_list (map ?F (map fst people))"
    by (rule prod_list_mset_cong) (rule hypothesis_partition, use assms in simp_all)
  finally show ?thesis using assms(1) by (simp add: spec_joint_keys)
qed

text \<open>
  Claim C2. For a hypothesis over the pedigree (\<open>one_gene\<close> and \<open>two_genes\<close> are disjoint
  sets of individuals), \<open>joint_probability\<close> returns the product, over all individuals, of
  the gene-count factor (the prior for a founder, the inheritance formula otherwise) times
  the trait factor; for the empty pedigree it returns 1. The function returns a value and
  nothing else: it has no state to change.
\<close>

theorem joint_probability_is_product:
  assumes "distinct (map fst people)" "distinct one_gene" "distinct two_genes"
    "set one_gene \<inter> set two_genes = {}"
    "set one_gene \<subseteq> fst ` set people" "set two_genes \<subseteq> fst ` set people"
  shows "joint_probability T people one_gene two_genes have_trait
           = Inr (spec_joint T people one_gene two_genes have_trait)
    \<and> joint_probability T [] [] [] have_trait = Inr 1"
proof
  show "joint_probability T people one_gene two_genes have_trait
           = Inr (spec_joint T people one_gene two_genes have_trait)"
    using assms by (simp add: joint_probability_Inr joint_value_spec)
  show "joint_probability T [] [] [] have_trait = Inr 1"
    by (simp add: joint_probability_def)
qed

theorem joint_probability_is_product_witness:
  "distinct (map fst family) \<and> set [''Harry''] \<inter> set [''James''] = {}
   \<and> joint_probability PROBS family [''Harry''] [''James''] [''James'']
       = Inr (spec_joint PROBS family [''Harry''] [''James''] [''James''])
   \<and> spec_joint PROBS family [''Harry''] [''James''] [''James''] = 0.0026643247488"
proof -
  have v: "spec_joint PROBS family [''Harry''] [''James''] [''James''] = 0.0026643247488"
    by (simp add: spec_joint_def family_def spec_gene_factor_def spec_trait_factor_def
        copies_def spec_child_def spec_transmit_def PROBS_def)
  show ?thesis
    using joint_probability_is_product [of family "[''Harry'']" "[''James'']" PROBS "[''James'']"] v
    by (simp add: family_def)
qed


section \<open>Parents that are absent or unknown\<close>




section \<open>powerset yields the sublists\<close>

lemma filter_Nil_subseqs: "filter (\<lambda>ys. ys = []) (subseqs xs) = [[]]"
proof (induction xs)
  case Nil
  show ?case by simp
next
  case (Cons x xs)
  have "filter (\<lambda>ys. ys = []) (map ((#) x) (subseqs xs)) = []"
    by (simp add: filter_empty_conv)
  with Cons show ?case by (simp add: Let_def)
qed

lemma fold_concat: "fold f (concat xss) s = fold (fold f) xss s"
  by (induction xss arbitrary: s) simp_all

lemma combinations_subseqs:
  "combinations xs r = filter (\<lambda>ys. length ys = r) (subseqs xs)"
proof (induction xs r rule: combinations.induct)
  case (1 xs)
  show ?case by (simp add: filter_Nil_subseqs)
next
  case (2 r)
  show ?case by simp
next
  case (3 x xs r)
  then show ?case by (simp add: Let_def filter_map comp_def)
qed

lemma length_subseq_le: "ys \<in> set (subseqs xs) \<Longrightarrow> length ys \<le> length xs"
  by (induction xs arbitrary: ys) (auto simp: Let_def le_SucI)

lemma set_powerset: "set (powerset xs) = set (subseqs xs)"
proof -
  have "ys \<in> set (powerset xs) \<longleftrightarrow> ys \<in> set (subseqs xs)" for ys
    using length_subseq_le [of ys xs]
    by (auto simp: powerset_def combinations_subseqs)
  then show ?thesis by blast
qed

lemma powerset_Pow: "set ` set (powerset xs) = Pow (set xs)"
  by (simp only: set_powerset subseqs_powset)

lemma powerset_subset: "ys \<in> set (powerset xs) \<Longrightarrow> set ys \<subseteq> set xs"
  using powerset_Pow [of xs] by blast

lemma distinct_concat_filter_by:
  "distinct rs \<Longrightarrow> distinct ys \<Longrightarrow>
   distinct (concat (map (\<lambda>r. filter (\<lambda>y. g y = r) ys) rs))"
  by (induction rs) auto

lemma distinct_powerset: "distinct xs \<Longrightarrow> distinct (powerset xs)"
proof -
  assume d: "distinct xs"
  have "distinct (map set (subseqs xs))" using d by (rule distinct_set_subseqs)
  then have "distinct (subseqs xs)" by (simp add: distinct_map)
  then have "distinct (concat (map (\<lambda>r. filter (\<lambda>ys. length ys = r) (subseqs xs))
                        [0..<length xs + 1]))"
    by (intro distinct_concat_filter_by) simp_all
  moreover have "combinations xs = (\<lambda>r. filter (\<lambda>ys. length ys = r) (subseqs xs))"
    by (rule ext) (rule combinations_subseqs)
  ultimately show ?thesis by (simp only: powerset_def)
qed

lemma distinct_set_powerset: "distinct xs \<Longrightarrow> distinct (map set (powerset xs))"
proof -
  assume d: "distinct xs"
  have "inj_on set (set (subseqs xs))"
    using distinct_set_subseqs [OF d] by (simp add: distinct_map)
  then have "inj_on set (set (powerset xs))" by (simp only: set_powerset)
  with distinct_powerset [OF d] show ?thesis by (simp add: distinct_map)
qed

lemma powerset_Nil: "powerset [] = [[]]"
  by (simp add: powerset_def)

lemma powerset_single: "powerset [n] = [[], [n]]"
  by (simp add: powerset_def)

section \<open>The loops of main as one pass over the hypotheses\<close>

lemma fold_unless:
  "fold (\<lambda>x s. if P x then s else f x s) xs s = fold f (filter (\<lambda>x. \<not> P x) xs) s"
  by (induction xs arbitrary: s) simp_all

lemma fold_gene_partitions:
  "fold (\<lambda>one_gene s. fold (\<lambda>two_genes s. f one_gene two_genes s)
                         (powerset (filter (\<lambda>n. n \<notin> set one_gene) names)) s)
     (powerset names) s
   = fold (\<lambda>g. f (fst g) (snd g)) (gene_partitions names) s"
  by (simp add: gene_partitions_def fold_concat fold_map comp_def)

lemma accumulated_hypotheses:
  "accumulated T people =
     fold (\<lambda>h. score_and_update T people (fst h) (fst (snd h)) (snd (snd h)))
       (hypotheses people) (Inr (initial_probabilities people))"
  by (simp add: accumulated_def enumeration_loop_def fold_unless fold_gene_partitions
      hypotheses_def fold_concat fold_map comp_def)

lemma gene_partitions_subset:
  "g \<in> set (gene_partitions names) \<Longrightarrow> set (fst g) \<subseteq> set names \<and> set (snd g) \<subseteq> set names"
  by (auto simp: gene_partitions_def dest!: powerset_subset)

lemma hypotheses_subset:
  "h \<in> set (hypotheses people) \<Longrightarrow>
   set (fst h) \<subseteq> fst ` set people \<and> set (fst (snd h)) \<subseteq> fst ` set people
   \<and> set (snd (snd h)) \<subseteq> fst ` set people"
  by (auto simp: hypotheses_def dest!: powerset_subset gene_partitions_subset)

section \<open>Accumulated totals\<close>

lemma score_and_update_Inr:
  assumes "set one_gene \<subseteq> fst ` set people" and "set two_genes \<subseteq> fst ` set people"
  shows "score_and_update T people have_trait one_gene two_genes (Inr probabilities)
           = Inr (update probabilities one_gene two_genes have_trait
                    (mass T people (have_trait, one_gene, two_genes)))"
  by (simp add: score_and_update_def mass_def joint_probability_Inr [OF assms])

lemma fold_score_and_update:
  "(\<And>h. h \<in> set hs \<Longrightarrow>
      set (fst (snd h)) \<subseteq> fst ` set people \<and> set (snd (snd h)) \<subseteq> fst ` set people) \<Longrightarrow>
   fold (\<lambda>h. score_and_update T people (fst h) (fst (snd h)) (snd (snd h))) hs (Inr probabilities)
     = Inr (fold (\<lambda>h probabilities.
                    update probabilities (fst (snd h)) (snd (snd h)) (fst h) (mass T people h))
              hs probabilities)"
proof (induction hs arbitrary: probabilities)
  case Nil
  show ?case by simp
next
  case (Cons h hs)
  have "set (fst (snd h)) \<subseteq> fst ` set people" "set (snd (snd h)) \<subseteq> fst ` set people"
    using Cons.prems [of h] by simp_all
  from score_and_update_Inr [OF this, of T "fst h" probabilities]
  have "score_and_update T people (fst h) (fst (snd h)) (snd (snd h)) (Inr probabilities)
          = Inr (update probabilities (fst (snd h)) (snd (snd h)) (fst h) (mass T people h))"
    by simp
  moreover have "\<And>h'. h' \<in> set hs \<Longrightarrow>
      set (fst (snd h')) \<subseteq> fst ` set people \<and> set (snd (snd h')) \<subseteq> fst ` set people"
    using Cons.prems by simp
  ultimately show ?case using Cons.IH by simp
qed

lemma accumulated_Inr:
  "accumulated T people =
     Inr (fold (\<lambda>h probabilities.
                  update probabilities (fst (snd h)) (snd (snd h)) (fst h) (mass T people h))
            (hypotheses people) (initial_probabilities people))"
  unfolding accumulated_hypotheses
  by (rule fold_score_and_update) (simp add: hypotheses_subset)

lemma gene_total_update_person:
  "gene_total (update_person one_gene two_genes have_trait p person m) = gene_total m + p"
  by (simp add: update_person_def gene_total_def Let_def)

lemma trait_total_update_person:
  "trait_total (update_person one_gene two_genes have_trait p person m) = trait_total m + p"
  by (simp add: update_person_def trait_total_def Let_def)

lemma keys_update: "map fst (update probabilities one_gene two_genes have_trait p) = map fst probabilities"
  by (simp add: update_def comp_def case_prod_unfold)

lemma gene_totals_update:
  "map (\<lambda>x. gene_total (snd x)) (update probabilities one_gene two_genes have_trait p)
     = map (\<lambda>x. gene_total (snd x) + p) probabilities"
  by (simp add: update_def comp_def case_prod_unfold gene_total_update_person)

lemma trait_totals_update:
  "map (\<lambda>x. trait_total (snd x)) (update probabilities one_gene two_genes have_trait p)
     = map (\<lambda>x. trait_total (snd x) + p) probabilities"
  by (simp add: update_def comp_def case_prod_unfold trait_total_update_person)

lemma keys_fold_update:
  "map fst (fold (\<lambda>h probabilities.
                    update probabilities (fst (snd h)) (snd (snd h)) (fst h) (w h))
              hs probabilities) = map fst probabilities"
  by (induction hs arbitrary: probabilities) (simp_all add: keys_update)

lemma gene_totals_fold_update:
  "map (\<lambda>x. gene_total (snd x))
     (fold (\<lambda>h probabilities.
              update probabilities (fst (snd h)) (snd (snd h)) (fst h) (w h)) hs probabilities)
   = map (\<lambda>x. gene_total (snd x) + sum_list (map w hs)) probabilities"
proof (induction hs arbitrary: probabilities)
  case Nil
  show ?case by simp
next
  case (Cons h hs)
  show ?case
    by (simp add: Cons.IH) (simp add: update_def comp_def case_prod_unfold
        gene_total_update_person add.assoc)
qed

lemma trait_totals_fold_update:
  "map (\<lambda>x. trait_total (snd x))
     (fold (\<lambda>h probabilities.
              update probabilities (fst (snd h)) (snd (snd h)) (fst h) (w h)) hs probabilities)
   = map (\<lambda>x. trait_total (snd x) + sum_list (map w hs)) probabilities"
proof (induction hs arbitrary: probabilities)
  case Nil
  show ?case by simp
next
  case (Cons h hs)
  show ?case
    by (simp add: Cons.IH) (simp add: update_def comp_def case_prod_unfold
        trait_total_update_person add.assoc)
qed

lemma accumulated_totals:
  "\<exists>probabilities.
     accumulated T people = Inr probabilities
     \<and> map fst probabilities = map fst people
     \<and> (\<forall>x\<in>set probabilities.
          gene_total (snd x) = evidence_mass T people
          \<and> trait_total (snd x) = evidence_mass T people)"
proof -
  let ?acc = "fold (\<lambda>h probabilities.
                  update probabilities (fst (snd h)) (snd (snd h)) (fst h) (mass T people h))
            (hypotheses people) (initial_probabilities people)"
  have 1: "accumulated T people = Inr ?acc" by (rule accumulated_Inr)
  have 2: "map fst ?acc = map fst people"
    by (simp add: keys_fold_update initial_probabilities_def comp_def case_prod_unfold)
  have g: "map (\<lambda>x. gene_total (snd x)) ?acc
             = map (\<lambda>x. evidence_mass T people) (initial_probabilities people)"
    unfolding gene_totals_fold_update
    by (simp add: initial_probabilities_def gene_total_def evidence_mass_def case_prod_unfold)
  have t: "map (\<lambda>x. trait_total (snd x)) ?acc
             = map (\<lambda>x. evidence_mass T people) (initial_probabilities people)"
    unfolding trait_totals_fold_update
    by (simp add: initial_probabilities_def trait_total_def evidence_mass_def case_prod_unfold)
  have 3: "gene_total (snd x) = evidence_mass T people \<and> trait_total (snd x) = evidence_mass T people"
    if "x \<in> set ?acc" for x
  proof -
    from that have "gene_total (snd x) \<in> set (map (\<lambda>x. gene_total (snd x)) ?acc)"
      and "trait_total (snd x) \<in> set (map (\<lambda>x. trait_total (snd x)) ?acc)" by simp_all
    then show ?thesis unfolding g t by auto
  qed
  from 1 2 3 show ?thesis by blast
qed


lemma accumulated_observed_founder:
  "accumulated PROBS observed_founder
     = Inr [(''a'', \<lparr>gene2 = 0.0065, gene1 = 0.0168, gene0 = 0.0096,
                    trait_True = 0.0329, trait_False = 0\<rparr>)]"
  by (simp add: accumulated_def enumeration_loop_def powerset_single powerset_Nil
      fails_evidence_def score_and_update_def joint_probability_def initial_probabilities_def
      one_gene_body_def two_genes_body_def no_gene_body_def update_def update_person_def
      PROBS_def observed_founder_def)


section \<open>normalize\<close>

lemma normalize_person_cases:
  "normalize_person m =
     (if gene_total m = 0 \<or> trait_total m = 0 then Inl ZeroDivisionError else Inr (scaled m))"
  by (simp add: normalize_person_def gene_total_def trait_total_def scaled_def Let_def)

lemma normalize_cases:
  "normalize probabilities =
     (if \<exists>x\<in>set probabilities. gene_total (snd x) = 0 \<or> trait_total (snd x) = 0
      then Inl ZeroDivisionError
      else Inr (map (\<lambda>x. (fst x, scaled (snd x))) probabilities))"
  by (induction probabilities rule: normalize.induct)
    (auto simp: normalize_person_cases)

text \<open>
  Claim C6, as the code has it. When the gene-count bins or the trait bins of some
  individual add up to zero, \<open>normalize\<close> does not return: the division \<open>1 / total\<close>
  raises \<open>ZeroDivisionError\<close>. There is no check of the denominator and no
  \<open>EvidenceUnsatisfiable\<close> error.
\<close>

theorem normalize_zero_total_raises:
  "x \<in> set probabilities \<Longrightarrow>
   gene2 (snd x) + gene1 (snd x) + gene0 (snd x) = 0
     \<or> trait_True (snd x) + trait_False (snd x) = 0 \<Longrightarrow>
   normalize probabilities = Inl ZeroDivisionError"
  unfolding normalize_cases by (auto simp: gene_total_def trait_total_def)

theorem normalize_zero_total_raises_witness:
  "normalize [(''a'', \<lparr>gene2 = 0.5, gene1 = 0.25, gene0 = 0.25,
                      trait_True = 0, trait_False = 0\<rparr>)] = Inl ZeroDivisionError"
  using normalize_zero_total_raises
    [of "(''a'', \<lparr>gene2 = 0.5, gene1 = 0.25, gene0 = 0.25, trait_True = 0, trait_False = 0\<rparr>)"
        "[(''a'', \<lparr>gene2 = 0.5, gene1 = 0.25, gene0 = 0.25, trait_True = 0, trait_False = 0\<rparr>)]"]
  by simp

theorem normalize_no_EvidenceUnsatisfiable:
  "normalize [(''a'', \<lparr>gene2 = 0, gene1 = 0, gene0 = 0, trait_True = 0, trait_False = 0\<rparr>)]
     = Inl ZeroDivisionError
   \<and> normalize [(''a'', \<lparr>gene2 = 0, gene1 = 0, gene0 = 0, trait_True = 0, trait_False = 0\<rparr>)]
     \<noteq> Inl EvidenceUnsatisfiable
   \<and> main zero_prior [\<lparr>row_name = ''a'', row_mother = '''', row_father = '''', row_trait = ''1''\<rparr>]
     = Inl ZeroDivisionError"
  by (simp add: main_def load_data_def load_row_def
      inference_def accumulated_def enumeration_loop_def powerset_single powerset_Nil
      fails_evidence_def score_and_update_def joint_probability_def initial_probabilities_def
      one_gene_body_def two_genes_body_def no_gene_body_def update_def update_person_def
      normalize_person_def PROBS_def zero_prior_def)

section \<open>A single founder without evidence\<close>


section \<open>Pedigrees outside the data model\<close>

text \<open>The dictionary that \<open>load_data\<close> builds has distinct keys, whatever the rows.\<close>

lemma distinct_load_data: "distinct (map fst (load_data rows))"
proof -
  have "distinct (map fst data) \<Longrightarrow> distinct (map fst (fold load_row rows data))" for data
    by (induction rows arbitrary: data) (simp_all add: load_row_def distinct_update)
  then show ?thesis by (simp add: load_data_def)
qed

lemma main_normalizes_accumulated:
  "\<exists>probabilities. accumulated T (load_data rows) = Inr probabilities
     \<and> main T rows = normalize probabilities"
  using accumulated_totals [of T "load_data rows"]
  by (auto simp: main_def inference_def)

lemma normalize_error: "normalize probabilities = Inl e \<Longrightarrow> e = ZeroDivisionError"
  unfolding normalize_cases by (simp split: if_splits)

text \<open>
  Claim C7, as the code has it. Nothing validates the pedigree: for every list of rows,
  whatever their parent fields, the loops of \<open>main\<close> run over the hypotheses without an
  exception and \<open>main\<close> goes on to \<open>normalize\<close>; its only possible failure is the
  \<open>ZeroDivisionError\<close> of \<open>normalize\<close>, never an \<open>InvalidPedigree\<close> error.
\<close>

theorem main_never_reports_invalid_pedigree:
  "(\<exists>probabilities. accumulated T (load_data rows) = Inr probabilities
      \<and> main T rows = normalize probabilities)
   \<and> main T rows \<noteq> Inl InvalidPedigree
   \<and> ((\<exists>result. main T rows = Inr result) \<or> main T rows = Inl ZeroDivisionError)"
proof -
  from main_normalizes_accumulated [of T rows] obtain probabilities
    where a: "accumulated T (load_data rows) = Inr probabilities"
      and m: "main T rows = normalize probabilities" by blast
  have "(\<exists>result. main T rows = Inr result) \<or> main T rows = Inl ZeroDivisionError"
    unfolding m normalize_cases by simp
  moreover from this have "main T rows \<noteq> Inl InvalidPedigree" by auto
  ultimately show ?thesis using a m by blast
qed

theorem invalid_pedigree_is_processed:
  "main PROBS half_orphan_rows
     = Inr [(''a'', \<lparr>gene2 = 0.0001, gene1 = 0.0198, gene0 = 0.9801,
                    trait_True = 0.020954, trait_False = 0.979046\<rparr>)]
   \<and> main PROBS own_parent_rows
     = Inr [(''a'', \<lparr>gene2 = 0.9801 / 2.4602, gene1 = 0.5 / 2.4602, gene0 = 0.9801 / 2.4602,
                    trait_True = 0.926866 / 2.4602, trait_False = 1.533334 / 2.4602\<rparr>)]"
  by (simp add: main_def load_data_def load_row_def inference_def accumulated_def
      enumeration_loop_def powerset_single powerset_Nil half_orphan_rows_def own_parent_rows_def
      fails_evidence_def score_and_update_def joint_probability_def initial_probabilities_def
      one_gene_body_def two_genes_body_def no_gene_body_def update_def update_person_def
      normalize_person_def PROBS_def childProb0_def childProb1_def childProb2_def
      momTemp_def dadTemp_def momTemp0_def dadTemp0_def)

section \<open>Order of accumulation\<close>










section \<open>Normalized distributions\<close>

lemma momTemp_bounds:
  "0 \<le> mutation T \<Longrightarrow> mutation T \<le> 1 \<Longrightarrow>
   0 \<le> momTemp T one_gene two_genes mom \<and> momTemp T one_gene two_genes mom \<le> 1"
  by (auto simp: momTemp_def field_simps)

lemma dadTemp_bounds:
  "0 \<le> mutation T \<Longrightarrow> mutation T \<le> 1 \<Longrightarrow>
   0 \<le> dadTemp T one_gene two_genes dad \<and> dadTemp T one_gene two_genes dad \<le> 1"
  by (auto simp: dadTemp_def field_simps)

lemma childProb_nonneg:
  assumes "0 \<le> mutation T" and "mutation T \<le> 1"
  shows "0 \<le> childProb0 T one_gene two_genes mom dad"
    and "0 \<le> childProb1 T one_gene two_genes mom dad"
    and "0 \<le> childProb2 T one_gene two_genes mom dad"
  using momTemp_bounds [OF assms, of one_gene two_genes mom]
    dadTemp_bounds [OF assms, of one_gene two_genes dad]
  by (simp_all add: childProb0_def childProb1_def childProb2_def
      momTemp0_complement dadTemp0_complement)

lemma bodies_nonneg:
  assumes "valid_tables T"
  shows "0 \<le> one_gene_body T one_gene two_genes have_trait p r"
    and "0 \<le> two_genes_body T one_gene two_genes have_trait p r"
    and "0 \<le> no_gene_body T one_gene two_genes have_trait p r"
proof -
  from assms have m: "0 \<le> mutation T" "mutation T \<le> 1" by (simp_all add: valid_tables_def)
  note c = childProb_nonneg [OF m, of one_gene two_genes "mother r" "father r"]
  from assms c show "0 \<le> one_gene_body T one_gene two_genes have_trait p r"
    by (simp add: one_gene_body_def valid_tables_def)
  from assms c show "0 \<le> two_genes_body T one_gene two_genes have_trait p r"
    by (simp add: two_genes_body_def valid_tables_def)
  from assms c show "0 \<le> no_gene_body T one_gene two_genes have_trait p r"
    by (simp add: no_gene_body_def valid_tables_def)
qed

lemma prod_lookup_body_nonneg:
  "(\<And>p r. 0 \<le> body p r) \<Longrightarrow> 0 \<le> prod_list (map (lookup_body people body) ps)"
  by (induction ps) (auto simp: lookup_body_def split: option.splits)

lemma joint_value_nonneg:
  "valid_tables T \<Longrightarrow> 0 \<le> joint_value T people one_gene two_genes have_trait"
  unfolding joint_value_def
  by (intro mult_nonneg_nonneg prod_lookup_body_nonneg bodies_nonneg)

lemma mass_nonneg:
  assumes "valid_tables T" and "h \<in> set (hypotheses people)"
  shows "0 \<le> mass T people h"
proof -
  from hypotheses_subset [OF assms(2)]
  have "joint_probability T people (fst (snd h)) (snd (snd h)) (fst h)
          = Inr (joint_value T people (fst (snd h)) (snd (snd h)) (fst h))"
    by (intro joint_probability_Inr) simp_all
  with joint_value_nonneg [OF assms(1)] show ?thesis by (simp add: mass_def)
qed

lemma sum_list_pos:
  fixes f :: "'a \<Rightarrow> real"
  assumes "\<And>x. x \<in> set xs \<Longrightarrow> 0 \<le> f x" and "y \<in> set xs" and "0 < f y"
  shows "0 < sum_list (map f xs)"
  using assms
proof (induction xs)
  case Nil
  then show ?case by simp
next
  case (Cons x xs)
  have nn: "0 \<le> sum_list (map f xs)"
    by (rule sum_list_nonneg) (use Cons.prems(1) in auto)
  show ?case
  proof (cases "y = x")
    case True
    with Cons.prems(3) nn show ?thesis by simp
  next
    case False
    with Cons.prems have "y \<in> set xs" by simp
    with Cons have "0 < sum_list (map f xs)" by simp
    moreover have "0 \<le> f x" using Cons.prems(1) by simp
    ultimately show ?thesis by simp
  qed
qed

lemma evidence_mass_pos:
  assumes "valid_tables T" and "h \<in> set (hypotheses people)" and "0 < mass T people h"
  shows "0 < evidence_mass T people"
  unfolding evidence_mass_def
proof (rule sum_list_pos [where y = h])
  show "0 \<le> mass T people x" if "x \<in> set (hypotheses people)" for x
    using assms(1) that by (rule mass_nonneg)
qed (fact assms(2), fact assms(3))

lemma scaled_sums:
  "gene_total m \<noteq> 0 \<Longrightarrow> gene2 (scaled m) + gene1 (scaled m) + gene0 (scaled m) = 1"
  "trait_total m \<noteq> 0 \<Longrightarrow> trait_True (scaled m) + trait_False (scaled m) = 1"
  by (simp_all add: scaled_def gene_total_def trait_total_def
      add_divide_distrib [symmetric])

text \<open>
  Claim C5. In a run with tables of probabilities in which some visited hypothesis has
  positive mass, \<open>main\<close> returns the accumulated totals with every bin multiplied by
  \<open>1 / evidence_mass\<close>, a positive factor that is the same for all bins: the proportions
  within each distribution are kept, and the gene-count bins and the trait bins of every
  individual each add up to 1, so within \<open>1e-9\<close> of 1.
\<close>

theorem normalized_distributions_sum_to_one:
  assumes "valid_tables T" and "h \<in> set (hypotheses people)" and "0 < mass T people h"
  shows "\<exists>probabilities result.
     accumulated T people = Inr probabilities
     \<and> inference T people = Inr result
     \<and> 0 < evidence_mass T people
     \<and> list_all2 (\<lambda>x y. fst y = fst x
           \<and> gene2 (snd y) = gene2 (snd x) * (1 / evidence_mass T people)
           \<and> gene1 (snd y) = gene1 (snd x) * (1 / evidence_mass T people)
           \<and> gene0 (snd y) = gene0 (snd x) * (1 / evidence_mass T people)
           \<and> trait_True (snd y) = trait_True (snd x) * (1 / evidence_mass T people)
           \<and> trait_False (snd y) = trait_False (snd x) * (1 / evidence_mass T people))
         probabilities result
     \<and> list_all (\<lambda>y. \<bar>gene2 (snd y) + gene1 (snd y) + gene0 (snd y) - 1\<bar> \<le> 1 / 10 ^ 9
           \<and> \<bar>trait_True (snd y) + trait_False (snd y) - 1\<bar> \<le> 1 / 10 ^ 9
           \<and> gene2 (snd y) + gene1 (snd y) + gene0 (snd y) = 1
           \<and> trait_True (snd y) + trait_False (snd y) = 1) result"
proof -
  from accumulated_totals [of T people] obtain probabilities where
    a: "accumulated T people = Inr probabilities"
    and t: "\<forall>x\<in>set probabilities. gene_total (snd x) = evidence_mass T people
              \<and> trait_total (snd x) = evidence_mass T people"
    by blast
  have pos: "0 < evidence_mass T people" by (rule evidence_mass_pos [OF assms])
  let ?result = "map (\<lambda>x. (fst x, scaled (snd x))) probabilities"
  have n: "normalize probabilities = Inr ?result"
    unfolding normalize_cases using t pos by auto
  have i: "inference T people = Inr ?result"
    by (simp add: inference_def a n)
  have p: "list_all2 (\<lambda>x y. fst y = fst x
           \<and> gene2 (snd y) = gene2 (snd x) * (1 / evidence_mass T people)
           \<and> gene1 (snd y) = gene1 (snd x) * (1 / evidence_mass T people)
           \<and> gene0 (snd y) = gene0 (snd x) * (1 / evidence_mass T people)
           \<and> trait_True (snd y) = trait_True (snd x) * (1 / evidence_mass T people)
           \<and> trait_False (snd y) = trait_False (snd x) * (1 / evidence_mass T people))
         probabilities ?result"
    unfolding list_all2_map2 list_all2_same using t by (simp add: scaled_def)
  have s: "list_all (\<lambda>y. \<bar>gene2 (snd y) + gene1 (snd y) + gene0 (snd y) - 1\<bar> \<le> 1 / 10 ^ 9
           \<and> \<bar>trait_True (snd y) + trait_False (snd y) - 1\<bar> \<le> 1 / 10 ^ 9
           \<and> gene2 (snd y) + gene1 (snd y) + gene0 (snd y) = 1
           \<and> trait_True (snd y) + trait_False (snd y) = 1) ?result"
    unfolding list_all_iff using t pos by (auto simp: scaled_sums)
  from a i pos p s show ?thesis by blast
qed

theorem normalized_distributions_sum_to_one_witness:
  "valid_tables PROBS \<and> 0 < mass PROBS observed_founder ([''a''], [], [])
   \<and> inference PROBS observed_founder
       = Inr [(''a'', \<lparr>gene2 = 0.0065 / 0.0329, gene1 = 0.0168 / 0.0329,
                      gene0 = 0.0096 / 0.0329, trait_True = 1, trait_False = 0\<rparr>)]"
proof -
  have v: "valid_tables PROBS" by (simp add: valid_tables_def PROBS_def)
  have h: "([''a''], [], []) \<in> set (hypotheses observed_founder)"
    by (simp add: hypotheses_def gene_partitions_def observed_founder_def powerset_single
        powerset_Nil fails_evidence_def)
  have m: "0 < mass PROBS observed_founder ([''a''], [], [])"
    by (simp add: mass_def joint_probability_def observed_founder_def no_gene_body_def PROBS_def)
  have e: "evidence_mass PROBS observed_founder = 0.0329"
    using accumulated_totals [of PROBS observed_founder]
    by (simp add: accumulated_observed_founder trait_total_def)
  from normalized_distributions_sum_to_one [OF v h m] v m show ?thesis
    by (auto simp: accumulated_observed_founder e list_all2_Cons1)
qed

section \<open>The hypotheses visited by the loops of main\<close>

lemma distinct_dependent_pairs:
  assumes "distinct (map f xs)" and "\<And>x. x \<in> set xs \<Longrightarrow> distinct (map g (F x))"
  shows "distinct (concat (map (\<lambda>x. map (\<lambda>y. (f x, g y)) (F x)) xs))"
  using assms
proof (induction xs)
  case Nil
  show ?case by simp
next
  case (Cons x xs)
  have "distinct (map (Pair (f x)) (map g (F x)))"
    using Cons.prems(2) [of x] by (simp add: distinct_map inj_on_def)
  then have 1: "distinct (map (\<lambda>y. (f x, g y)) (F x))" by (simp add: comp_def)
  have 2: "distinct (concat (map (\<lambda>x. map (\<lambda>y. (f x, g y)) (F x)) xs))"
    using Cons.prems by (intro Cons.IH) simp_all
  have 3: "set (map (\<lambda>y. (f x, g y)) (F x))
             \<inter> set (concat (map (\<lambda>x. map (\<lambda>y. (f x, g y)) (F x)) xs)) = {}"
    using Cons.prems(1) by auto
  from 1 2 3 show ?case by simp
qed

lemma map_sets_gene_partitions:
  "map (\<lambda>g. (set (fst g), set (snd g))) (gene_partitions names)
     = concat (map (\<lambda>one_gene. map (\<lambda>two_genes. (set one_gene, set two_genes))
                                  (powerset (filter (\<lambda>n. n \<notin> set one_gene) names)))
                 (powerset names))"
  by (simp add: gene_partitions_def map_concat comp_def)

lemma distinct_gene_partitions:
  assumes "distinct names"
  shows "distinct (map (\<lambda>g. (set (fst g), set (snd g))) (gene_partitions names))"
  unfolding map_sets_gene_partitions
  by (rule distinct_dependent_pairs) (simp_all add: assms distinct_set_powerset)

lemma set_gene_partitions:
  "set (map (\<lambda>g. (set (fst g), set (snd g))) (gene_partitions names))
     = {(One, Two). One \<subseteq> set names \<and> Two \<subseteq> set names \<and> One \<inter> Two = {}}"
proof (intro set_eqI iffI)
  fix x
  assume "x \<in> set (map (\<lambda>g. (set (fst g), set (snd g))) (gene_partitions names))"
  then obtain one_gene two_genes where
    o: "one_gene \<in> set (powerset names)"
    and t: "two_genes \<in> set (powerset (filter (\<lambda>n. n \<notin> set one_gene) names))"
    and x: "x = (set one_gene, set two_genes)"
    unfolding map_sets_gene_partitions by auto
  from powerset_subset [OF o] powerset_subset [OF t] x
  show "x \<in> {(One, Two). One \<subseteq> set names \<and> Two \<subseteq> set names \<and> One \<inter> Two = {}}" by auto
next
  fix x
  assume "x \<in> {(One, Two). One \<subseteq> set names \<and> Two \<subseteq> set names \<and> One \<inter> Two = {}}"
  then obtain One Two where x: "x = (One, Two)" and One: "One \<subseteq> set names" and Two: "Two \<subseteq> set names"
    and d: "One \<inter> Two = {}" by auto
  from One have "One \<in> set ` set (powerset names)" by (simp add: powerset_Pow)
  then obtain one_gene where o: "one_gene \<in> set (powerset names)" and so: "set one_gene = One"
    by auto
  from Two d so have "Two \<in> Pow (set (filter (\<lambda>n. n \<notin> set one_gene) names))" by auto
  then have "Two \<in> set ` set (powerset (filter (\<lambda>n. n \<notin> set one_gene) names))"
    by (simp only: powerset_Pow)
  then obtain two_genes
    where t: "two_genes \<in> set (powerset (filter (\<lambda>n. n \<notin> set one_gene) names))"
      and st: "set two_genes = Two" by auto
  from o t so st x
  show "x \<in> set (map (\<lambda>g. (set (fst g), set (snd g))) (gene_partitions names))"
    unfolding map_sets_gene_partitions by force
qed

lemma fails_evidence_consistent:
  assumes "distinct (map fst people)"
  shows "fails_evidence people (map fst people) have_trait
           \<longleftrightarrow> \<not> evidence_consistent people (set have_trait)"
proof -
  have l: "map_of people (fst x) = Some (snd x)" if "x \<in> set people" for x
    using assms that by (cases x) simp
  have "fails_evidence people (map fst people) have_trait
          \<longleftrightarrow> (\<exists>x\<in>set people. observed (snd x) \<noteq> None
                 \<and> observed (snd x) \<noteq> Some (fst x \<in> set have_trait))"
    by (auto simp: fails_evidence_def list_ex_iff l)
  also have "\<dots> \<longleftrightarrow> \<not> evidence_consistent people (set have_trait)"
    unfolding evidence_consistent_def list_all_iff by (intro iffI; force)
  finally show ?thesis .
qed

lemma map_as_sets_hypotheses:
  "map as_sets (hypotheses people)
     = concat (map (\<lambda>have_trait.
                      map (\<lambda>g. (set have_trait, (set (fst g), set (snd g))))
                        (gene_partitions (map fst people)))
                 (filter (\<lambda>have_trait. \<not> fails_evidence people (map fst people) have_trait)
                    (powerset (map fst people))))"
  by (simp add: hypotheses_def map_concat comp_def as_sets_def)

lemma distinct_hypotheses:
  assumes "distinct (map fst people)"
  shows "distinct (map as_sets (hypotheses people))"
  unfolding map_as_sets_hypotheses
  by (rule distinct_dependent_pairs)
    (simp_all add: assms distinct_set_powerset distinct_map_filter distinct_gene_partitions)

lemma set_hypotheses:
  assumes "distinct (map fst people)"
  shows "set (map as_sets (hypotheses people))
     = {(H, One, Two). H \<subseteq> fst ` set people \<and> evidence_consistent people H
          \<and> One \<subseteq> fst ` set people \<and> Two \<subseteq> fst ` set people \<and> One \<inter> Two = {}}"
proof -
  let ?N = "map fst people"
  let ?G = "set (map (\<lambda>g. (set (fst g), set (snd g))) (gene_partitions ?N))"
  let ?HT = "set (filter (\<lambda>have_trait. \<not> fails_evidence people ?N have_trait) (powerset ?N))"
  have 1: "set (map as_sets (hypotheses people)) = (set ` ?HT) \<times> ?G"
    unfolding map_as_sets_hypotheses by (auto simp: image_iff)
  have 2: "set ` ?HT = {H. H \<subseteq> set ?N \<and> evidence_consistent people H}"
  proof (intro set_eqI iffI)
    fix H assume "H \<in> set ` ?HT"
    then obtain ht where "ht \<in> set (powerset ?N)" "\<not> fails_evidence people ?N ht" "H = set ht"
      by auto
    with powerset_subset [of ht ?N] fails_evidence_consistent [OF assms, of ht]
    show "H \<in> {H. H \<subseteq> set ?N \<and> evidence_consistent people H}" by simp
  next
    fix H assume "H \<in> {H. H \<subseteq> set ?N \<and> evidence_consistent people H}"
    then have s: "H \<subseteq> set ?N" and c: "evidence_consistent people H" by simp_all
    from s have "H \<in> set ` set (powerset ?N)" by (simp only: powerset_Pow Pow_iff)
    then obtain ht where h: "ht \<in> set (powerset ?N)" and e: "set ht = H" by auto
    from c e fails_evidence_consistent [OF assms, of ht]
    have "\<not> fails_evidence people ?N ht" by simp
    with h e show "H \<in> set ` ?HT" by force
  qed
  show ?thesis unfolding 1 2 set_gene_partitions by auto
qed

text \<open>
  Claim C3. The loops of \<open>main\<close> score and accumulate the hypotheses of the list
  \<open>hypotheses people\<close>, one after the other. As triples of sets these are pairwise
  different, and they are exactly the triples of a trait set consistent with the evidence
  and two disjoint sets of individuals \<open>one_gene\<close> and \<open>two_genes\<close>, with no condition
  from the evidence on the gene sets. For the empty pedigree the list holds the empty
  hypothesis alone, of probability 1.
\<close>

theorem enumeration_visits_each_hypothesis_once:
  assumes "distinct (map fst people)"
  shows "accumulated T people
           = fold (\<lambda>h. score_and_update T people (fst h) (fst (snd h)) (snd (snd h)))
               (hypotheses people) (Inr (initial_probabilities people))
    \<and> distinct (map as_sets (hypotheses people))
    \<and> set (map as_sets (hypotheses people))
        = {(H, One, Two). H \<subseteq> fst ` set people \<and> evidence_consistent people H
             \<and> One \<subseteq> fst ` set people \<and> Two \<subseteq> fst ` set people \<and> One \<inter> Two = {}}
    \<and> hypotheses [] = [([], [], [])]
    \<and> mass T [] ([], [], []) = 1"
proof -
  have "hypotheses [] = [([], [], [])]"
    by (simp add: hypotheses_def gene_partitions_def powerset_Nil fails_evidence_def)
  moreover have "mass T [] ([], [], []) = 1"
    by (simp add: mass_def joint_probability_def)
  ultimately show ?thesis
    using distinct_hypotheses [OF assms] set_hypotheses [OF assms]
    by (simp only: accumulated_hypotheses simp_thms)
qed

lemma powerset_pair: "powerset [a, b] = [[], [a], [b], [a, b]]"
  by (simp add: powerset_def numeral_2_eq_2)

lemma hypotheses_two_founders:
  "hypotheses two_founders =
     [([''a''], [], []), ([''a''], [], [''a'']), ([''a''], [], [''b'']),
      ([''a''], [], [''a'', ''b'']),
      ([''a''], [''a''], []), ([''a''], [''a''], [''b'']),
      ([''a''], [''b''], []), ([''a''], [''b''], [''a'']),
      ([''a''], [''a'', ''b''], []),
      ([''a'', ''b''], [], []), ([''a'', ''b''], [], [''a'']), ([''a'', ''b''], [], [''b'']),
      ([''a'', ''b''], [], [''a'', ''b'']),
      ([''a'', ''b''], [''a''], []), ([''a'', ''b''], [''a''], [''b'']),
      ([''a'', ''b''], [''b''], []), ([''a'', ''b''], [''b''], [''a'']),
      ([''a'', ''b''], [''a'', ''b''], [])]"
  by (simp add: hypotheses_def gene_partitions_def two_founders_def powerset_pair
      powerset_single powerset_Nil fails_evidence_def)

theorem enumeration_visits_each_hypothesis_once_witness:
  "distinct (map fst two_founders)
   \<and> length (hypotheses two_founders) = 18
   \<and> distinct (map as_sets (hypotheses two_founders))
   \<and> ({''a'', ''b''}, {''b''}, {''a''}) \<in> set (map as_sets (hypotheses two_founders))
   \<and> ({''b''}, {}, {}) \<notin> set (map as_sets (hypotheses two_founders))"
proof -
  have d: "distinct (map fst two_founders)" by (simp add: two_founders_def)
  have c: "evidence_consistent two_founders {''a'', ''b''}"
    and n: "\<not> evidence_consistent two_founders {''b''}"
    by (simp_all add: evidence_consistent_def two_founders_def)
  have k: "fst ` set two_founders = {''a'', ''b''}" by (simp add: two_founders_def)
  from enumeration_visits_each_hypothesis_once [OF d, of PROBS] d c n
  show ?thesis by (simp add: k hypotheses_two_founders del: set_map)
qed

section \<open>Rounding to binary64\<close>

lemma round_half_even_near: "\<bar>of_int (round_half_even y) - y\<bar> \<le> 1 / 2"
  unfolding round_half_even_def Let_def by (auto simp: abs_if) linarith+

lemma round_half_even_le: "y \<le> of_int N \<Longrightarrow> round_half_even y \<le> N"
  unfolding round_half_even_def Let_def
  by (auto simp: floor_le_iff le_floor_iff)

lemma round_half_even_nonneg: "0 \<le> y \<Longrightarrow> 0 \<le> round_half_even y"
  unfolding round_half_even_def Let_def by auto

lemma scaled_range:
  assumes "0 < x"
  defines "e \<equiv> \<lfloor>log 2 x\<rfloor> - 52"
  shows "2 ^ 52 \<le> x / 2 powr of_int e" and "x / 2 powr of_int e < 2 ^ 53"
proof -
  let ?k = "\<lfloor>log 2 x\<rfloor>"
  have k: "2 powr of_int ?k \<le> x" "x < 2 powr (of_int ?k + 1)"
    using floor_log_eq_powr_iff [of x 2 ?k] assms(1) by simp_all
  have s: "(2::real) powr of_int e = 2 powr of_int ?k / 2 ^ 52"
    by (simp add: e_def powr_diff)
  have p: "(0::real) < 2 powr of_int ?k" by simp
  from k(1) p show "2 ^ 52 \<le> x / 2 powr of_int e"
    unfolding s by (simp add: field_simps)
  have "(2::real) powr (of_int ?k + 1) = 2 * 2 powr of_int ?k" by (simp add: powr_add)
  with k(2) p show "x / 2 powr of_int e < 2 ^ 53"
    unfolding s by (simp add: field_simps)
qed

lemma binary64_error:
  assumes "0 \<le> x"
  shows "(1 - 1 / 2 ^ 53) * x \<le> binary64 x" and "binary64 x \<le> (1 + 1 / 2 ^ 53) * x"
proof -
  have "(1 - 1 / 2 ^ 53) * x \<le> binary64 x \<and> binary64 x \<le> (1 + 1 / 2 ^ 53) * x"
  proof (cases "x = 0")
    case True
    then show ?thesis by (simp add: binary64_def)
  next
    case False
    with assms have pos: "0 < x" by simp
    define e where "e = \<lfloor>log 2 x\<rfloor> - 52"
    define s where "s = (2::real) powr of_int e"
    define y where "y = x / s"
    define r where "r = (of_int (round_half_even y) :: real)"
    have s: "0 < s" by (simp add: s_def)
    have y: "2 ^ 52 \<le> y" using scaled_range(1) [OF pos] by (simp add: y_def s_def e_def)
    have b: "binary64 x = r * s"
      using pos by (simp add: binary64_def Let_def r_def y_def s_def e_def)
    have x: "x = y * s" using s by (simp add: y_def)
    have "\<bar>r - y\<bar> \<le> 1 / 2" unfolding r_def by (rule round_half_even_near)
    moreover have "1 / 2 \<le> y / 2 ^ 53" using y by simp
    ultimately have n: "y - y / 2 ^ 53 \<le> r" "r \<le> y + y / 2 ^ 53" by linarith+
    have "(y - y / 2 ^ 53) * s \<le> r * s" using n(1) s by (simp only: mult_le_cancel_right_pos)
    then have 1: "(1 - 1 / 2 ^ 53) * (y * s) \<le> r * s" by (simp add: algebra_simps)
    have "r * s \<le> (y + y / 2 ^ 53) * s"
      using n(2) s by (simp only: mult_le_cancel_right_pos)
    then have 2: "r * s \<le> (1 + 1 / 2 ^ 53) * (y * s)" by (simp add: algebra_simps)
    from 1 2 show ?thesis by (simp only: b x [symmetric])
  qed
  then show "(1 - 1 / 2 ^ 53) * x \<le> binary64 x" and "binary64 x \<le> (1 + 1 / 2 ^ 53) * x"
    by simp_all
qed

lemma binary64_nonneg: "0 \<le> x \<Longrightarrow> 0 \<le> binary64 x"
proof -
  assume x: "0 \<le> x"
  have "0 \<le> (1 - 1 / 2 ^ 53) * x" using x by simp
  with binary64_error(1) [OF x] show ?thesis by linarith
qed

lemma binary64_scaled:
  fixes k :: nat
  assumes "2 ^ 52 \<le> \<bar>x\<bar> * 2 ^ k" and "\<bar>x\<bar> * 2 ^ k < 2 ^ 53"
  shows "binary64 x = of_int (round_half_even (x * 2 ^ k)) / 2 ^ k"
proof -
  from assms(1) have nz: "x \<noteq> 0" by auto
  then have pos: "0 < \<bar>x\<bar>" by simp
  have "2 powr (52 - real k) \<le> \<bar>x\<bar>"
    using assms(1) by (simp add: powr_diff powr_realpow field_simps)
  moreover have "\<bar>x\<bar> < 2 powr (52 - real k + 1)"
    using assms(2) by (simp add: powr_diff powr_add powr_realpow field_simps)
  ultimately have "\<lfloor>log 2 \<bar>x\<bar>\<rfloor> = 52 - int k"
    using floor_log_eq_powr_iff [of "\<bar>x\<bar>" 2 "52 - int k"] pos by simp
  then have e: "\<lfloor>log 2 \<bar>x\<bar>\<rfloor> - 52 = - int k" by simp
  have p: "(2::real) powr of_int (- int k) = 1 / 2 ^ k"
    by (simp add: powr_minus powr_realpow inverse_eq_divide)
  show ?thesis using nz by (simp add: binary64_def Let_def e p del: of_int_minus)
qed

lemma binary64_0: "binary64 0 = 0"
  by (simp add: binary64_def)

section \<open>Float totals against exact totals\<close>

lemma binary64_le_pow2:
  assumes "0 < x" and "x \<le> 2 powr of_int j"
  shows "binary64 x \<le> 2 powr of_int j"
proof -
  define k where "k = \<lfloor>log 2 x\<rfloor>"
  define e where "e = k - 52"
  define s where "s = (2::real) powr of_int e"
  have s: "0 < s" by (simp add: s_def)
  have "log 2 x \<le> of_int j" using assms by (simp add: le_log_iff log_le_iff)
  then have kj: "k \<le> j" unfolding k_def by (simp add: floor_le_iff)
  then have "0 \<le> j - e" by (simp add: e_def)
  then obtain n where n: "j - e = int n" by (rule nonneg_int_cases)
  have p: "(2::real) powr of_int (j - e) = of_int (2 ^ n)"
    unfolding n by (simp add: powr_realpow)
  have "x / s \<le> 2 powr of_int j / s" using assms(2) s by (simp add: divide_right_mono)
  also have "\<dots> = 2 powr of_int (j - e)" by (simp add: s_def powr_diff)
  finally have "x / s \<le> of_int (2 ^ n)" by (simp only: p)
  then have "round_half_even (x / s) \<le> 2 ^ n" by (rule round_half_even_le)
  then have "(of_int (round_half_even (x / s)) :: real) \<le> of_int (2 ^ n)"
    by (simp only: of_int_le_iff)
  then have "of_int (round_half_even (x / s)) * s \<le> of_int (2 ^ n) * s"
    using s by (simp only: mult_le_cancel_right_pos)
  also have "of_int (2 ^ n) * s = 2 powr of_int (j - e) * 2 powr of_int e"
    by (simp only: p s_def)
  also have "\<dots> = 2 powr of_int j" by (simp add: powr_add [symmetric])
  finally show ?thesis
    using assms(1) by (simp add: binary64_def Let_def s_def e_def k_def)
qed

lemma binary64_le_1: "0 \<le> x \<Longrightarrow> x \<le> 1 \<Longrightarrow> binary64 x \<le> 1"
  using binary64_le_pow2 [of x 0] by (cases "x = 0") (simp_all add: binary64_0)

lemma binary64_le_half: "0 \<le> x \<Longrightarrow> x \<le> 1 / 2 \<Longrightarrow> binary64 x \<le> 1 / 2"
  using binary64_le_pow2 [of x "-1"] by (cases "x = 0") (simp_all add: binary64_0 powr_minus)

lemma round_lo_hi: "0 \<le> round_lo" "round_lo \<le> 1" "1 \<le> round_hi" "0 \<le> round_hi"
  by (simp_all add: round_lo_def round_hi_def)

lemma binary64_round:
  assumes "0 \<le> x"
  shows "round_lo * x \<le> binary64 x" and "binary64 x \<le> round_hi * x"
  unfolding round_lo_def round_hi_def
  by (rule binary64_error(1) [OF assms], rule binary64_error(2) [OF assms])

lemma fl_mul_half_bounds:
  assumes "0 \<le> x" and "x \<le> 1"
  shows "0 \<le> fl_mul 0.5 x" and "fl_mul 0.5 x \<le> 1 / 2"
proof -
  have h: "0 \<le> 0.5 * x" "0.5 * x \<le> 1 / 2" using assms by simp_all
  show "0 \<le> fl_mul 0.5 x" unfolding fl_mul_def using h(1) by (rule binary64_nonneg)
  show "fl_mul 0.5 x \<le> 1 / 2" unfolding fl_mul_def using h by (rule binary64_le_half)
qed

lemma fl_sub_1_bounds:
  assumes "0 \<le> x" and "x \<le> 1"
  shows "0 \<le> fl_sub 1 x" and "fl_sub 1 x \<le> 1"
proof -
  have h: "0 \<le> 1 - x" "1 - x \<le> 1" using assms by simp_all
  show "0 \<le> fl_sub 1 x" unfolding fl_sub_def using h(1) by (rule binary64_nonneg)
  show "fl_sub 1 x \<le> 1" unfolding fl_sub_def using h by (rule binary64_le_1)
qed

lemma momTemp_fl_bounds:
  assumes "0 \<le> mutation T" and "mutation T \<le> 1"
  shows "0 \<le> momTemp_fl T one_gene two_genes mom \<and> momTemp_fl T one_gene two_genes mom \<le> 1"
proof -
  let ?a = "fl_sub 1 (mutation T)"
  note a = fl_sub_1_bounds [OF assms]
  note b = fl_mul_half_bounds [OF a]
  note c = fl_mul_half_bounds [OF assms]
  have s: "0 \<le> fl_mul 0.5 ?a + fl_mul 0.5 (mutation T)"
    "fl_mul 0.5 ?a + fl_mul 0.5 (mutation T) \<le> 1"
    using b c by linarith+
  have "0 \<le> fl_add (fl_mul 0.5 ?a) (fl_mul 0.5 (mutation T))"
    unfolding fl_add_def using s(1) by (rule binary64_nonneg)
  moreover have "fl_add (fl_mul 0.5 ?a) (fl_mul 0.5 (mutation T)) \<le> 1"
    unfolding fl_add_def using s by (rule binary64_le_1)
  ultimately show ?thesis using a assms by (simp add: momTemp_fl_def)
qed

lemma dadTemp_fl_momTemp_fl: "dadTemp_fl = momTemp_fl"
  by (simp add: fun_eq_iff dadTemp_fl_def momTemp_fl_def)

lemma momTemp0_fl_bounds:
  assumes "0 \<le> mutation T" and "mutation T \<le> 1"
  shows "0 \<le> momTemp0_fl T one_gene two_genes mom"
proof -
  have "momTemp0_fl T one_gene two_genes mom
          \<in> {momTemp_fl T one_gene two_genes mom, mutation T, fl_sub 1 (mutation T)}"
    by (simp add: momTemp0_fl_def momTemp_fl_def)
  moreover have "0 \<le> fl_sub 1 (mutation T)"
    by (rule fl_sub_1_bounds(1) [OF assms])
  ultimately show ?thesis
    using momTemp_fl_bounds [OF assms, of one_gene two_genes mom] assms(1) by auto
qed

lemma dadTemp0_fl_momTemp0_fl: "dadTemp0_fl = momTemp0_fl"
  by (simp add: fun_eq_iff dadTemp0_fl_def momTemp0_fl_def)

lemma childProb_fl_nonneg:
  assumes "0 \<le> mutation T" and "mutation T \<le> 1"
  shows "0 \<le> childProb0_fl T one_gene two_genes mom dad"
    and "0 \<le> childProb1_fl T one_gene two_genes mom dad"
    and "0 \<le> childProb2_fl T one_gene two_genes mom dad"
proof -
  note m = momTemp_fl_bounds [OF assms, of one_gene two_genes mom]
  note d = momTemp_fl_bounds [OF assms, of one_gene two_genes dad]
  note m0 = momTemp0_fl_bounds [OF assms, of one_gene two_genes mom]
  note d0 = momTemp0_fl_bounds [OF assms, of one_gene two_genes dad]
  show "0 \<le> childProb0_fl T one_gene two_genes mom dad"
    using m0 d0 by (simp add: childProb0_fl_def dadTemp0_fl_momTemp0_fl fl_mul_def binary64_nonneg)
  show "0 \<le> childProb2_fl T one_gene two_genes mom dad"
    using m d by (simp add: childProb2_fl_def dadTemp_fl_momTemp_fl fl_mul_def binary64_nonneg)
  have "0 \<le> fl_sub 1 (momTemp_fl T one_gene two_genes mom)"
    "0 \<le> fl_sub 1 (momTemp_fl T one_gene two_genes dad)"
    using m d by (simp_all add: fl_sub_1_bounds(1))
  then show "0 \<le> childProb1_fl T one_gene two_genes mom dad"
    using m d by (simp add: childProb1_fl_def dadTemp_fl_momTemp_fl fl_mul_def fl_add_def
        binary64_nonneg)
qed

lemma bodies_fl_nonneg:
  assumes "valid_tables T"
  shows "0 \<le> one_gene_body_fl T one_gene two_genes have_trait p r"
    and "0 \<le> two_genes_body_fl T one_gene two_genes have_trait p r"
    and "0 \<le> no_gene_body_fl T one_gene two_genes have_trait p r"
proof -
  from assms have m: "0 \<le> mutation T" "mutation T \<le> 1" by (simp_all add: valid_tables_def)
  note c = childProb_fl_nonneg [OF m, of one_gene two_genes "mother r" "father r"]
  from assms c show "0 \<le> one_gene_body_fl T one_gene two_genes have_trait p r"
    by (simp add: one_gene_body_fl_def valid_tables_def fl_mul_def binary64_nonneg)
  from assms c show "0 \<le> two_genes_body_fl T one_gene two_genes have_trait p r"
    by (simp add: two_genes_body_fl_def valid_tables_def fl_mul_def binary64_nonneg)
  from assms c show "0 \<le> no_gene_body_fl T one_gene two_genes have_trait p r"
    by (simp add: no_gene_body_fl_def valid_tables_def fl_mul_def binary64_nonneg)
qed

lemma fold_fl_mul_nonneg:
  "0 \<le> a \<Longrightarrow> (\<And>x. x \<in> set xs \<Longrightarrow> 0 \<le> x) \<Longrightarrow> 0 \<le> fold (\<lambda>x result. fl_mul result x) xs a"
  by (induction xs arbitrary: a) (simp_all add: fl_mul_def binary64_nonneg)

lemma lookup_body_nonneg: "(\<And>p r. 0 \<le> body p r) \<Longrightarrow> 0 \<le> lookup_body people body p"
  by (simp add: lookup_body_def split: option.splits)

lemma joint_value_fl_nonneg:
  assumes "valid_tables T"
  shows "0 \<le> joint_value_fl T people one_gene two_genes have_trait"
  unfolding joint_value_fl_def fl_prod_def
  by (rule fold_fl_mul_nonneg) (auto intro!: lookup_body_nonneg bodies_fl_nonneg [OF assms])

lemma joint_probability_fl_Inr:
  assumes "set one_gene \<subseteq> fst ` set people" and "set two_genes \<subseteq> fst ` set people"
  shows "joint_probability_fl T people one_gene two_genes have_trait =
     Inr (joint_value_fl T people one_gene two_genes have_trait)"
proof -
  have z: "set (filter (\<lambda>p. p \<notin> set one_gene \<and> p \<notin> set two_genes) (map fst people))
             \<subseteq> fst ` set people"
    by auto
  show ?thesis
    unfolding joint_probability_fl_def joint_value_fl_def for_persons_Inr [OF assms(1)]
      for_persons_Inr [OF assms(2)] for_persons_Inr [OF z] sum.case
    by simp
qed

lemma mass_fl_nonneg:
  assumes "valid_tables T" and "h \<in> set (hypotheses people)"
  shows "0 \<le> mass_fl T people h"
proof -
  from hypotheses_subset [OF assms(2)]
  have "joint_probability_fl T people (fst (snd h)) (snd (snd h)) (fst h)
          = Inr (joint_value_fl T people (fst (snd h)) (snd (snd h)) (fst h))"
    by (intro joint_probability_fl_Inr) simp_all
  with joint_value_fl_nonneg [OF assms(1)] show ?thesis by (simp add: mass_fl_def)
qed

lemma accumulated_fl_hypotheses:
  "accumulated_fl T people =
     fold (\<lambda>h. score_and_update_fl T people (fst h) (fst (snd h)) (snd (snd h)))
       (hypotheses people) (Inr (initial_probabilities people))"
  by (simp add: accumulated_fl_def enumeration_loop_fl_def fold_unless fold_gene_partitions
      hypotheses_def fold_concat fold_map comp_def)

lemma fold_score_and_update_fl:
  "(\<And>h. h \<in> set hs \<Longrightarrow>
      set (fst (snd h)) \<subseteq> fst ` set people \<and> set (snd (snd h)) \<subseteq> fst ` set people) \<Longrightarrow>
   fold (\<lambda>h. score_and_update_fl T people (fst h) (fst (snd h)) (snd (snd h))) hs
       (Inr probabilities)
     = Inr (accumulate_fl probabilities (map (\<lambda>h. (h, mass_fl T people h)) hs))"
proof (induction hs arbitrary: probabilities)
  case Nil
  show ?case by (simp add: accumulate_fl_def)
next
  case (Cons h hs)
  have "set (fst (snd h)) \<subseteq> fst ` set people" "set (snd (snd h)) \<subseteq> fst ` set people"
    using Cons.prems [of h] by simp_all
  from joint_probability_fl_Inr [OF this, of T "fst h"]
  have "score_and_update_fl T people (fst h) (fst (snd h)) (snd (snd h)) (Inr probabilities)
          = Inr (update_fl probabilities (fst (snd h)) (snd (snd h)) (fst h) (mass_fl T people h))"
    by (simp add: score_and_update_fl_def mass_fl_def)
  moreover have "\<And>h'. h' \<in> set hs \<Longrightarrow>
      set (fst (snd h')) \<subseteq> fst ` set people \<and> set (snd (snd h')) \<subseteq> fst ` set people"
    using Cons.prems by simp
  ultimately show ?case using Cons.IH by (simp add: accumulate_fl_def)
qed

lemma accumulated_fl_accumulate_fl:
  "accumulated_fl T people
     = Inr (accumulate_fl (initial_probabilities people)
              (map (\<lambda>h. (h, mass_fl T people h)) (hypotheses people)))"
  unfolding accumulated_fl_hypotheses
  by (rule fold_score_and_update_fl) (simp add: hypotheses_subset)

lemma near_refl: "0 \<le> e \<Longrightarrow> near 0 e e"
  by (simp add: near_def)

lemma near_nonneg: "near k f e \<Longrightarrow> 0 \<le> f"
proof -
  assume n: "near k f e"
  have "0 \<le> round_lo ^ k" using round_lo_hi(1) by simp
  moreover from n have "0 \<le> e" by (simp add: near_def)
  ultimately have "0 \<le> round_lo ^ k * e" by (rule mult_nonneg_nonneg)
  moreover from n have "round_lo ^ k * e \<le> f" by (simp add: near_def)
  ultimately show ?thesis by (rule order_trans)
qed

lemma near_keep:
  assumes "near k f e"
  shows "near (Suc k) f e"
proof -
  from assms have e: "0 \<le> e" and l: "round_lo ^ k * e \<le> f"
    and u: "f \<le> round_hi ^ k * e" by (simp_all add: near_def)
  have lk: "0 \<le> round_lo ^ k * e" and uk: "0 \<le> round_hi ^ k * e"
    using e round_lo_hi by simp_all
  have "round_lo * (round_lo ^ k * e) \<le> 1 * (round_lo ^ k * e)"
    using round_lo_hi(2) lk by (rule mult_right_mono)
  with l have 1: "round_lo ^ Suc k * e \<le> f" by (simp add: mult.assoc)
  have "1 * (round_hi ^ k * e) \<le> round_hi * (round_hi ^ k * e)"
    using round_lo_hi(3) uk by (rule mult_right_mono)
  with u have 2: "f \<le> round_hi ^ Suc k * e" by (simp add: mult.assoc)
  from e 1 2 show ?thesis by (simp only: near_def simp_thms)
qed

lemma near_add:
  assumes "near k f e" and "0 \<le> p"
  shows "near (Suc k) (fl_add f p) (e + p)"
proof -
  from assms have e: "0 \<le> e" and l: "round_lo ^ k * e \<le> f"
    and u: "f \<le> round_hi ^ k * e" by (simp_all add: near_def)
  have f: "0 \<le> f" using assms(1) by (rule near_nonneg)
  then have s: "0 \<le> f + p" using assms(2) by simp
  have lk: "round_lo ^ k \<le> 1" using round_lo_hi(1,2) by (rule power_le_one)
  have uk: "1 \<le> round_hi ^ k" using round_lo_hi(3) by (rule one_le_power)
  have "round_lo ^ k * p \<le> 1 * p" using lk assms(2) by (rule mult_right_mono)
  with l have "round_lo ^ k * (e + p) \<le> f + p" by (simp add: distrib_left)
  then have "round_lo * (round_lo ^ k * (e + p)) \<le> round_lo * (f + p)"
    using round_lo_hi(1) by (rule mult_left_mono)
  also have "\<dots> \<le> binary64 (f + p)" by (rule binary64_round(1) [OF s])
  finally have 1: "round_lo ^ Suc k * (e + p) \<le> fl_add f p"
    by (simp add: fl_add_def mult.assoc)
  have "1 * p \<le> round_hi ^ k * p" using uk assms(2) by (rule mult_right_mono)
  with u have "f + p \<le> round_hi ^ k * (e + p)" by (simp add: distrib_left)
  then have "round_hi * (f + p) \<le> round_hi * (round_hi ^ k * (e + p))"
    using round_lo_hi(4) by (rule mult_left_mono)
  with binary64_round(2) [OF s] have "binary64 (f + p) \<le> round_hi * (round_hi ^ k * (e + p))"
    by (rule order_trans)
  then have 2: "fl_add f p \<le> round_hi ^ Suc k * (e + p)"
    by (simp add: fl_add_def mult.assoc)
  from e assms(2) have "0 \<le> e + p" by simp
  with 1 2 show ?thesis by (simp only: near_def simp_thms)
qed

lemma near_update_person:
  assumes "near_marginal k mf me" and "0 \<le> p"
  shows "near_marginal (Suc k) (update_person_fl one_gene two_genes have_trait p person mf)
           (update_person one_gene two_genes have_trait p person me)"
  using assms
  by (simp add: near_marginal_def update_person_fl_def update_person_def Let_def
      near_keep near_add)

lemma near_update:
  assumes "near_entries k a b" and "0 \<le> p"
  shows "near_entries (Suc k) (update_fl a one_gene two_genes have_trait p)
           (update b one_gene two_genes have_trait p)"
  using assms(1) unfolding near_entries_def update_fl_def update_def
  by (auto simp: list_all2_map1 list_all2_map2 near_update_person [OF _ assms(2)]
      elim!: list_all2_mono)

lemma near_accumulate:
  assumes "near_entries k a b" and "\<And>hp. hp \<in> set pairs \<Longrightarrow> 0 \<le> snd hp"
  shows "near_entries (k + length pairs) (accumulate_fl a pairs) (accumulate b pairs)"
  using assms
proof (induction pairs arbitrary: k a b)
  case Nil
  then show ?case by (simp add: accumulate_fl_def accumulate_def)
next
  case (Cons hp pairs)
  have "0 \<le> snd hp" using Cons.prems(2) by simp
  from near_update [OF Cons.prems(1) this]
  have "near_entries (Suc k)
          (update_fl a (fst (snd (fst hp))) (snd (snd (fst hp))) (fst (fst hp)) (snd hp))
          (update b (fst (snd (fst hp))) (snd (snd (fst hp))) (fst (fst hp)) (snd hp))" .
  from Cons.IH [OF this] Cons.prems(2) show ?case
    by (simp add: accumulate_fl_def accumulate_def)
qed

lemma near_entries_initial:
  "near_entries 0 (initial_probabilities people) (initial_probabilities people)"
  by (simp add: near_entries_def initial_probabilities_def list_all2_same near_marginal_def
      near_def case_prod_unfold)

end
